theory Spec2Isabelle
  imports Complex_Main "HOL-Library.Log_Nat" "HOL-Library.AList"
begin

chapter \<open>The wallet module \<open>wallet.js\<close>\<close>

text \<open>
  \<open>wallet.js\<close> defines \<open>window.DemoWallet\<close>: a cache of the user's wallet (\<open>balance\<close>,
  \<open>reserved\<close>, \<open>totalIncome\<close>) that is refreshed from a remote ledger and updated
  optimistically, with readers for the membership level, the referral list and the payout
  addresses. Each function of the module is a function on an explicit state here. A
  synchronous function returns its result and the new state. An asynchronous one takes in
  addition the answer of each \<open>fetch\<close> it awaits and returns how its promise settles:
  \<open>Returned\<close> with the value, or \<open>Thrown\<close>. A call runs from start to end; other calls that
  could run between two of its awaits are not part of the model. Arguments have the types the
  module's documentation gives them (\<open>amount\<close> is a number, a currency is a string); what
  comes from the network is any JSON value.
\<close>

section \<open>JavaScript numbers\<close>

text \<open>
  A JavaScript number is an IEEE 754 binary64 value. The model keeps the three special
  values apart and carries a finite value as the rational it denotes. The two zeros are
  one value \<open>Fin 0\<close>: the module never divides and never inspects the sign of a zero, so
  no operation of \<open>wallet.js\<close> tells them apart. Every arithmetic result is rounded to
  the nearest binary64 value, ties to even, by \<open>round64\<close>.
\<close>

datatype jsnum = NaN | PInf | NInf | Fin rat

definition pow2 :: "int \<Rightarrow> rat" where
  "pow2 e = (if 0 \<le> e then 2 ^ nat e else 1 / 2 ^ nat (- e))"

definition ilog2 :: "rat \<Rightarrow> int" where
  \<comment> \<open>\<open>\<lfloor>log\<^sub>2 a\<rfloor>\<close> of a positive rational, from the bit lengths of its numerator and denominator\<close>
  "ilog2 a =
     (let p = fst (quotient_of a); q = snd (quotient_of a);
          k = bitlen p - bitlen q
      in if pow2 k \<le> a then k else k - 1)"

definition round_half_even :: "rat \<Rightarrow> int" where
  "round_half_even x =
     (let f = \<lfloor>x\<rfloor>; r = x - of_int f
      in if r < 1 / 2 then f
         else if 1 / 2 < r then f + 1
         else if even f then f else f + 1)"

definition round64 :: "rat \<Rightarrow> jsnum" where
  \<comment> \<open>53 significant bits, least exponent \<open>-1074\<close> (subnormals), overflow at \<open>2 ^ 1024\<close>\<close>
  "round64 q =
     (if q = 0 then Fin 0
      else
        let a = \<bar>q\<bar>;
            e = max (ilog2 a - 52) (- 1074);
            m = round_half_even (a / pow2 e);
            v = of_int m * pow2 e
        in if pow2 1024 \<le> v then (if 0 < q then PInf else NInf)
           else Fin (if 0 < q then v else - v))"

fun jneg :: "jsnum \<Rightarrow> jsnum" where
  "jneg NaN = NaN"
| "jneg PInf = NInf"
| "jneg NInf = PInf"
| "jneg (Fin a) = Fin (- a)"

fun jadd :: "jsnum \<Rightarrow> jsnum \<Rightarrow> jsnum" where
  "jadd NaN _ = NaN"
| "jadd _ NaN = NaN"
| "jadd PInf NInf = NaN"
| "jadd NInf PInf = NaN"
| "jadd PInf _ = PInf"
| "jadd _ PInf = PInf"
| "jadd NInf _ = NInf"
| "jadd _ NInf = NInf"
| "jadd (Fin a) (Fin b) = round64 (a + b)"

definition jsub :: "jsnum \<Rightarrow> jsnum \<Rightarrow> jsnum" where
  "jsub a b = jadd a (jneg b)"

definition jsign :: "jsnum \<Rightarrow> int" where
  "jsign x =
     (case x of
        NaN \<Rightarrow> 0
      | PInf \<Rightarrow> 1
      | NInf \<Rightarrow> - 1
      | Fin a \<Rightarrow> (if a < 0 then - 1 else if a = 0 then 0 else 1))"

fun jmul :: "jsnum \<Rightarrow> jsnum \<Rightarrow> jsnum" where
  "jmul NaN _ = NaN"
| "jmul _ NaN = NaN"
| "jmul (Fin a) (Fin b) = round64 (a * b)"
| "jmul x y =  \<comment> \<open>an infinity is involved: zero times infinity is \<open>NaN\<close>\<close>
     (if jsign x * jsign y = 0 then NaN
      else if 0 < jsign x * jsign y then PInf else NInf)"

fun jlt :: "jsnum \<Rightarrow> jsnum \<Rightarrow> bool" where
  "jlt NaN _ = False"
| "jlt _ NaN = False"
| "jlt PInf _ = False"
| "jlt _ NInf = False"
| "jlt NInf _ = True"
| "jlt _ PInf = True"
| "jlt (Fin a) (Fin b) = (a < b)"

fun jle :: "jsnum \<Rightarrow> jsnum \<Rightarrow> bool" where
  "jle NaN _ = False"
| "jle _ NaN = False"
| "jle NInf _ = True"
| "jle _ PInf = True"
| "jle PInf _ = False"
| "jle _ NInf = False"
| "jle (Fin a) (Fin b) = (a \<le> b)"

definition jge :: "jsnum \<Rightarrow> jsnum \<Rightarrow> bool" where
  "jge a b = jle b a"

definition jgt :: "jsnum \<Rightarrow> jsnum \<Rightarrow> bool" where
  "jgt a b = jlt b a"

fun isNaN :: "jsnum \<Rightarrow> bool" where
  "isNaN NaN = True"
| "isNaN _ = False"

fun isFinite :: "jsnum \<Rightarrow> bool" where
  "isFinite (Fin _) = True"
| "isFinite _ = False"

definition num_truthy :: "jsnum \<Rightarrow> bool" where
  \<comment> \<open>ToBoolean of a number: false for \<open>NaN\<close> and the zeros\<close>
  "num_truthy x = (x \<noteq> NaN \<and> x \<noteq> Fin 0)"


section \<open>Strings and their numeric value\<close>

text \<open>
  Strings are lists of 8-bit characters, read as the code units \<open>0..255\<close> of a JavaScript
  string. \<open>parseFloat\<close> (used by \<open>refreshWallet\<close>) takes the longest prefix that is a
  \<open>StrDecimalLiteral\<close>; \<open>StringToNumber\<close> (used when \<open>>=\<close> meets a string) needs the whole
  trimmed string to be a numeric literal. Both round the exact decimal value.
\<close>

definition is_digit :: "char \<Rightarrow> bool" where
  "is_digit c = (48 \<le> (of_char c :: nat) \<and> (of_char c :: nat) \<le> 57)"

definition digit_val :: "char \<Rightarrow> nat" where
  "digit_val c =
     (let n = (of_char c :: nat)
      in if 48 \<le> n \<and> n \<le> 57 then n - 48
         else if 97 \<le> n \<and> n \<le> 102 then n - 87
         else if 65 \<le> n \<and> n \<le> 70 then n - 55
         else 16)"

definition digits_val :: "nat \<Rightarrow> string \<Rightarrow> nat" where
  "digits_val radix ds = foldl (\<lambda>a c. radix * a + digit_val c) 0 ds"

definition is_space :: "char \<Rightarrow> bool" where
  \<comment> \<open>tab, line feed, vertical tab, form feed, carriage return, space, no-break space\<close>
  "is_space c = ((of_char c :: nat) \<in> {9, 10, 11, 12, 13, 32, 160})"

definition trim :: "string \<Rightarrow> string" where
  "trim s = rev (dropWhile is_space (rev (dropWhile is_space s)))"

definition pow10 :: "int \<Rightarrow> rat" where
  "pow10 e = (if 0 \<le> e then 10 ^ nat e else 1 / 10 ^ nat (- e))"

definition str_exponent :: "string \<Rightarrow> int \<times> string" where
  \<comment> \<open>an \<open>ExponentPart\<close> at the head of the string, if there is one, and the rest\<close>
  "str_exponent s =
     (case s of
        [] \<Rightarrow> (0, s)
      | c # t \<Rightarrow>
          if c = CHR ''e'' \<or> c = CHR ''E'' then
            (let neg = (t \<noteq> [] \<and> hd t = CHR ''-'');
                 u = (if t \<noteq> [] \<and> (hd t = CHR ''-'' \<or> hd t = CHR ''+'') then tl t else t);
                 ds = takeWhile is_digit u
             in if ds = [] then (0, s)
                else (if neg then - int (digits_val 10 ds) else int (digits_val 10 ds),
                      dropWhile is_digit u))
          else (0, s))"

definition str_unsigned :: "string \<Rightarrow> (jsnum \<times> string) option" where
  \<comment> \<open>the longest \<open>StrUnsignedDecimalLiteral\<close> at the head of the string, and the rest\<close>
  "str_unsigned s =
     (if take 8 s = ''Infinity'' then Some (PInf, drop 8 s)
      else
        let ip = takeWhile is_digit s;
            r1 = dropWhile is_digit s;
            dot = (r1 \<noteq> [] \<and> hd r1 = CHR ''.'');
            fp = (if dot then takeWhile is_digit (tl r1) else []);
            r2 = (if dot then dropWhile is_digit (tl r1) else r1)
        in if ip = [] \<and> fp = [] then None
           else
             Some (round64 ((of_nat (digits_val 10 ip)
                              + of_nat (digits_val 10 fp) / 10 ^ length fp)
                            * pow10 (fst (str_exponent r2))),
                   snd (str_exponent r2)))"

definition str_decimal :: "string \<Rightarrow> (jsnum \<times> string) option" where
  "str_decimal s =
     (case s of
        [] \<Rightarrow> None
      | c # t \<Rightarrow>
          if c = CHR ''-'' then map_option (\<lambda>p. (jneg (fst p), snd p)) (str_unsigned t)
          else if c = CHR ''+'' then str_unsigned t
          else str_unsigned s)"

definition parseFloat :: "string \<Rightarrow> jsnum" where
  "parseFloat s =
     (case str_decimal (dropWhile is_space s) of None \<Rightarrow> NaN | Some p \<Rightarrow> fst p)"

definition radix_literal :: "string \<Rightarrow> nat option" where
  \<comment> \<open>\<open>0x\<close>, \<open>0o\<close> and \<open>0b\<close> integer literals\<close>
  "radix_literal s =
     (case s of
        z # r # ds \<Rightarrow>
          (let radix = (if r = CHR ''x'' \<or> r = CHR ''X'' then 16
                        else if r = CHR ''o'' \<or> r = CHR ''O'' then 8
                        else if r = CHR ''b'' \<or> r = CHR ''B'' then 2 else (0::nat))
           in if z = CHR ''0'' \<and> radix \<noteq> 0 \<and> ds \<noteq> [] \<and> list_all (\<lambda>c. digit_val c < radix) ds
              then Some (digits_val radix ds) else None)
      | _ \<Rightarrow> None)"

definition string_to_number :: "string \<Rightarrow> jsnum" where
  "string_to_number s =
     (let t = trim s
      in if t = [] then Fin 0
         else
           (case str_decimal t of
              Some (v, []) \<Rightarrow> v
            | _ \<Rightarrow>
                (case radix_literal t of
                   Some n \<Rightarrow> round64 (of_nat n)
                 | None \<Rightarrow> NaN)))"

definition to_lower_char :: "char \<Rightarrow> char" where
  "to_lower_char c =
     (let n = (of_char c :: nat)
      in if (65 \<le> n \<and> n \<le> 90) \<or> (192 \<le> n \<and> n \<le> 222 \<and> n \<noteq> 215)
         then char_of (n + 32) else c)"

definition toLowerCase :: "string \<Rightarrow> string" where
  "toLowerCase s = map to_lower_char s"

definition uri_unreserved :: "char \<Rightarrow> bool" where
  "uri_unreserved c =
     (let n = (of_char c :: nat)
      in (65 \<le> n \<and> n \<le> 90) \<or> (97 \<le> n \<and> n \<le> 122) \<or> (48 \<le> n \<and> n \<le> 57)
         \<or> c \<in> set ''-_.!~*'' \<or> n = 39 \<or> n = 40 \<or> n = 41)"

definition percent :: "nat \<Rightarrow> string" where
  "percent b = [CHR ''%'', ''0123456789ABCDEF'' ! (b div 16), ''0123456789ABCDEF'' ! (b mod 16)]"

definition encode_char :: "char \<Rightarrow> string" where
  \<comment> \<open>a reserved code unit is escaped as the bytes of its UTF-8 encoding\<close>
  "encode_char c =
     (let n = (of_char c :: nat)
      in if uri_unreserved c then [c]
         else if n < 128 then percent n
         else percent (192 + n div 64) @ percent (128 + n mod 64))"

definition encodeURIComponent :: "string \<Rightarrow> string" where
  "encodeURIComponent s = concat (map encode_char s)"

section \<open>JSON values\<close>

text \<open>
  What \<open>res.json()\<close> yields. \<open>JObj\<close> lists the own properties of the parsed object, each
  key once. A property read gives \<open>None\<close> for \<open>undefined\<close>.
\<close>

datatype json =
    JNull
  | JBool bool
  | JNum jsnum
  | JStr string
  | JArr "json list"
  | JObj "(string \<times> json) list"

fun truthy :: "json \<Rightarrow> bool" where
  "truthy JNull = False"
| "truthy (JBool b) = b"
| "truthy (JNum n) = num_truthy n"
| "truthy (JStr s) = (s \<noteq> [])"
| "truthy (JArr _) = True"
| "truthy (JObj _) = True"

definition truthy_val :: "json option \<Rightarrow> bool" where
  "truthy_val v = (case v of None \<Rightarrow> False | Some j \<Rightarrow> truthy j)"

fun get_prop :: "json \<Rightarrow> string \<Rightarrow> json option" where
  \<comment> \<open>\<open>x.k\<close> for a base that is not \<open>null\<close>, and a key no prototype defines\<close>
  "get_prop (JObj kvs) k = map_of kvs k"
| "get_prop _ k = None"

fun parseFloat_json :: "json \<Rightarrow> jsnum" where
  \<comment> \<open>\<open>parseFloat\<close> reads the string of its argument; an array's string is its elements'
      strings joined by commas, so only the first element can contribute\<close>
  "parseFloat_json JNull = NaN"
| "parseFloat_json (JBool _) = NaN"
| "parseFloat_json (JNum n) = n"
| "parseFloat_json (JStr s) = parseFloat s"
| "parseFloat_json (JObj _) = NaN"
| "parseFloat_json (JArr []) = NaN"
| "parseFloat_json (JArr (x # xs)) =
     (case x of
        JNum n \<Rightarrow> n
      | JStr s \<Rightarrow> parseFloat s
      | JArr ys \<Rightarrow> parseFloat_json x
      | _ \<Rightarrow> NaN)"

definition parseFloat_val :: "json option \<Rightarrow> jsnum" where
  "parseFloat_val v = (case v of None \<Rightarrow> NaN | Some j \<Rightarrow> parseFloat_json j)"

fun to_number :: "json \<Rightarrow> jsnum" where
  \<comment> \<open>ToNumber; an array or object goes through its string first\<close>
  "to_number JNull = Fin 0"
| "to_number (JBool b) = Fin (if b then 1 else 0)"
| "to_number (JNum n) = n"
| "to_number (JStr s) = string_to_number s"
| "to_number (JObj _) = NaN"
| "to_number (JArr []) = Fin 0"
| "to_number (JArr [x]) =
     (case x of
        JNull \<Rightarrow> Fin 0
      | JBool _ \<Rightarrow> NaN
      | JObj _ \<Rightarrow> NaN
      | _ \<Rightarrow> to_number x)"
| "to_number (JArr (x # y # zs)) = NaN"

section \<open>The module's state and its environment\<close>

text \<open>
  \<open>__walletCache\<close> is the module's only variable. Around it stand \<open>localStorage\<close> (of
  which the module reads \<open>currentUserId\<close> and \<open>currentPhone\<close> and writes \<open>aiIncome\<close>; every
  access sits in a \<open>try\<close>, so a store that throws reads as absent), \<open>window.SB_CONFIG\<close>
  (defined by another script: its \<open>url\<close> and the value of \<open>headers()\<close> are taken as given), the
  clock, and the network. A call to \<open>fetch\<close> appends the request to \<open>sent\<close>; what the
  network answers is an argument of the operation that awaits it.
\<close>

record wallet_cache =
  balance :: jsnum
  reserved :: jsnum
  totalIncome :: jsnum

record local_storage =
  available :: bool
  currentUserId :: "string option"
  currentPhone :: "string option"
  aiIncome :: "jsnum option"  \<comment> \<open>the number whose \<open>String\<close> is stored\<close>

record sb_config =
  url :: string
  headers :: "(string \<times> string) list"

datatype http_method = GET | POST | PATCH

record request =
  req_method :: http_method
  req_url :: string
  req_headers :: "(string \<times> string) list"
  req_body :: "json option"  \<comment> \<open>the object handed to \<open>JSON.stringify\<close>\<close>

record world =
  cache :: wallet_cache
  storage :: local_storage
  SB :: sb_config
  clock :: string  \<comment> \<open>\<open>new Date().toISOString()\<close>\<close>
  sent :: "request list"

datatype fetch_result =
    NetworkFailure  \<comment> \<open>the promise of \<open>fetch\<close> rejects\<close>
  | Response (ok: bool) (json_body: "json option") (text_body: "string option")
    \<comment> \<open>\<open>res.ok\<close>; what \<open>res.json()\<close> and \<open>res.text()\<close> resolve to, \<open>None\<close> when they reject\<close>

datatype js_error =
    Error string
  | TypeError
  | FetchRejected
  | BodyRejected

datatype 'a outcome = Returned 'a | Thrown js_error

definition getItem :: "(local_storage \<Rightarrow> string option) \<Rightarrow> world \<Rightarrow> string option" where
  \<comment> \<open>\<open>try { x = localStorage.getItem(key) || null } catch (e) {}\<close> with \<open>x\<close> initially \<open>null\<close>\<close>
  "getItem key w =
     (if available (storage w) then
        (case key (storage w) of
           None \<Rightarrow> None
         | Some s \<Rightarrow> if s = [] then None else Some s)
      else None)"

definition fetch :: "request \<Rightarrow> world \<Rightarrow> world" where
  "fetch r w = w\<lparr>sent := sent w @ [r]\<rparr>"

definition with_prefer :: "(string \<times> string) list \<Rightarrow> (string \<times> string) list" where
  \<comment> \<open>\<open>Object.assign({}, SB.headers(), { 'Prefer': 'return=representation' })\<close>\<close>
  "with_prefer hs = AList.update ''Prefer'' ''return=representation'' hs"

definition settled :: "fetch_result \<Rightarrow> world \<Rightarrow> world" where
  \<comment> \<open>a request left behind with \<open>.catch(function () {})\<close>: no handler for a response, an
      empty one for a rejection\<close>
  "settled r w = (case r of NetworkFailure \<Rightarrow> w | Response _ _ _ \<Rightarrow> w)"

section \<open>Wallet cache\<close>

definition refresh_url :: "world \<Rightarrow> string \<Rightarrow> string" where
  "refresh_url w userId =
     url (SB w) @ ''/rest/v1/wallet_balances''
       @ ''?select=usdt_balance,usdt_reserved''
       @ ''&user_id=eq.'' @ encodeURIComponent userId
       @ ''&limit=1''"

definition refresh_try :: "string \<Rightarrow> fetch_result \<Rightarrow> world \<Rightarrow> unit outcome \<times> world" where
  \<comment> \<open>the body of the \<open>try\<close> block of \<open>refreshWallet\<close>\<close>
  "refresh_try userId r w =
     (let w1 = fetch \<lparr>req_method = GET, req_url = refresh_url w userId,
                       req_headers = headers (SB w), req_body = None\<rparr> w
      in case r of
           NetworkFailure \<Rightarrow> (Thrown FetchRejected, w1)
         | Response is_ok js txt \<Rightarrow>
             if \<not> is_ok then (Returned (), w1)
             else
               (case js of
                  None \<Rightarrow> (Thrown BodyRejected, w1)
                | Some rows \<Rightarrow>
                    (case rows of
                       JArr (row # rest) \<Rightarrow>
                         if row = JNull then (Thrown TypeError, w1)
                         else
                           let bal = parseFloat_val (get_prop row ''usdt_balance'');
                               resv = parseFloat_val (get_prop row ''usdt_reserved'');
                               c1 = (if \<not> isNaN bal then (cache w1)\<lparr>balance := bal\<rparr>
                                     else cache w1);
                               c2 = (if \<not> isNaN resv then c1\<lparr>reserved := resv\<rparr> else c1)
                           in (Returned (), w1\<lparr>cache := c2\<rparr>)
                     | _ \<Rightarrow> (Returned (), w1))))"

definition refreshWallet :: "fetch_result \<Rightarrow> world \<Rightarrow> unit outcome \<times> world" where
  "refreshWallet r w =
     (case getItem currentUserId w of
        None \<Rightarrow> (Returned (), w)
      | Some userId \<Rightarrow>
          (case refresh_try userId r w of
             (Thrown e, w') \<Rightarrow> (Returned (), w')  \<comment> \<open>\<open>catch (e) { }\<close>\<close>
           | (Returned u, w') \<Rightarrow> (Returned u, w')))"

definition getWalletSync :: "world \<Rightarrow> wallet_cache" where
  "getWalletSync w =
     \<lparr>balance = balance (cache w), reserved = reserved (cache w),
      totalIncome = totalIncome (cache w)\<rparr>"

definition getWalletAsync :: "fetch_result \<Rightarrow> world \<Rightarrow> wallet_cache outcome \<times> world" where
  "getWalletAsync r w =
     (case refreshWallet r w of
        (Thrown e, w') \<Rightarrow> (Thrown e, w')
      | (Returned u, w') \<Rightarrow> (Returned (getWalletSync w'), w'))"

definition balance_patch :: "world \<Rightarrow> string \<Rightarrow> request" where
  \<comment> \<open>the PATCH of the wallet row that \<open>recordDeposit\<close> and \<open>withdraw\<close> each build\<close>
  "balance_patch w userId =
     \<lparr>req_method = PATCH,
      req_url = url (SB w) @ ''/rest/v1/wallet_balances?user_id=eq.'' @ encodeURIComponent userId,
      req_headers = headers (SB w),
      req_body = Some (JObj [(''usdt_balance'', JNum (balance (cache w))),
                         (''updated_at'', JStr (clock w))])\<rparr>"

definition recordDeposit :: "jsnum \<Rightarrow> world \<Rightarrow> world" where
  "recordDeposit amount w =
     (let amt = amount
      in if \<not> num_truthy amt \<or> \<not> isFinite amt \<or> jle amt (Fin 0) then w
         else
           let w1 = w\<lparr>cache := (cache w)\<lparr>balance := jadd (balance (cache w)) amt\<rparr>\<rparr>
           in case getItem currentUserId w1 of
                None \<Rightarrow> w1
              | Some userId \<Rightarrow> fetch (balance_patch w1 userId) w1)"

definition addIncome :: "jsnum \<Rightarrow> world \<Rightarrow> world" where
  "addIncome n w =
     (let inc = (if \<not> num_truthy n \<or> \<not> isFinite n \<or> jle n (Fin 0) then Fin 1 else n);
          w1 = w\<lparr>cache := (cache w)\<lparr>totalIncome := jadd (totalIncome (cache w)) inc\<rparr>\<rparr>
      in if available (storage w1)
         then w1\<lparr>storage := (storage w1)\<lparr>aiIncome := Some (totalIncome (cache w1))\<rparr>\<rparr>
         else w1)"

definition fee_rate :: jsnum where
  \<comment> \<open>the literal \<open>0.05\<close>: the binary64 value nearest to one twentieth\<close>
  "fee_rate = round64 (5 / 100)"

record wallet_snapshot =
  snap_balance :: jsnum
  snap_totalIncome :: jsnum

definition withdraw_request :: "world \<Rightarrow> string \<Rightarrow> jsnum \<Rightarrow> jsnum \<Rightarrow> request" where
  "withdraw_request w userId amt fee =
     \<lparr>req_method = POST,
      req_url = url (SB w) @ ''/rest/v1/withdraw_requests'',
      req_headers = with_prefer (headers (SB w)),
      req_body = Some (JObj [(''user_id'', JStr userId), (''currency'', JStr ''usdt''),
                         (''network'', JStr ''trc20''), (''to_address'', JStr []),
                         (''amount'', JNum amt), (''fee'', JNum fee),
                         (''address'', JStr [])])\<rparr>"

definition withdraw :: "jsnum \<Rightarrow> world \<Rightarrow> wallet_snapshot option \<times> world" where
  "withdraw amount w =
     (let amt = amount
      in if \<not> num_truthy amt \<or> \<not> isFinite amt \<or> jle amt (Fin 0) then (None, w)
         else
           let fee = jmul amt fee_rate;
               toDeduct = jadd amt fee
           in if jlt (balance (cache w)) amt then (None, w)
              else
                let w1 = w\<lparr>cache := (cache w)\<lparr>balance := jsub (balance (cache w)) amt\<rparr>\<rparr>;
                    w2 = (case getItem currentUserId w1 of
                            None \<Rightarrow> w1
                          | Some userId \<Rightarrow>
                              fetch (withdraw_request w1 userId amt fee)
                                (fetch (balance_patch w1 userId) w1))
                in (Some \<lparr>snap_balance = balance (cache w2),
                           snap_totalIncome = totalIncome (cache w2)\<rparr>, w2))"

section \<open>Referral tree reader\<close>

record member =
  member_id :: "json option"
  depth :: "json option"

record team_summary =
  members :: "member list"

definition team_url :: "world \<Rightarrow> string \<Rightarrow> string" where
  "team_url w userId =
     url (SB w) @ ''/rest/v1/invite_edges''
       @ ''?select=descendant_id,depth''
       @ ''&ancestor_id=eq.'' @ encodeURIComponent userId
       @ ''&depth=lt.4''"

fun team_members :: "json list \<Rightarrow> member list outcome" where
  \<comment> \<open>\<open>rows.map(function (r) { return { id: r.descendant_id, depth: r.depth }; })\<close>;
      reading a property of \<open>null\<close> throws\<close>
  "team_members [] = Returned []"
| "team_members (r # rs) =
     (if r = JNull then Thrown TypeError
      else
        (case team_members rs of
           Thrown e \<Rightarrow> Thrown e
         | Returned ms \<Rightarrow>
             Returned (\<lparr>member_id = get_prop r ''descendant_id'',
                        depth = get_prop r ''depth''\<rparr> # ms)))"

definition rows_of :: "json \<Rightarrow> json list" where
  \<comment> \<open>\<open>Array.isArray(rows) ? rows : []\<close>\<close>
  "rows_of rows = (case rows of JArr xs \<Rightarrow> xs | _ \<Rightarrow> [])"

definition getTeamSummary :: "fetch_result \<Rightarrow> world \<Rightarrow> team_summary outcome \<times> world" where
  "getTeamSummary r w =
     (case getItem currentUserId w of
        None \<Rightarrow> (Returned \<lparr>members = []\<rparr>, w)
      | Some userId \<Rightarrow>
          let w1 = fetch \<lparr>req_method = GET, req_url = team_url w userId,
                           req_headers = headers (SB w), req_body = None\<rparr> w
          in case r of
               NetworkFailure \<Rightarrow> (Thrown FetchRejected, w1)
             | Response is_ok js txt \<Rightarrow>
                 if \<not> is_ok then (Returned \<lparr>members = []\<rparr>, w1)
                 else
                   (case js of
                      None \<Rightarrow> (Thrown BodyRejected, w1)
                    | Some rows \<Rightarrow>
                        (case team_members (rows_of rows) of
                           Thrown e \<Rightarrow> (Thrown e, w1)
                         | Returned ms \<Rightarrow> (Returned \<lparr>members = ms\<rparr>, w1))))"

section \<open>Membership tier resolver\<close>

record tier_rule =
  minBalance :: nat
  minUsers :: nat

record vip_info =
  currentLevel :: json
  nextLevel :: "string option"
  isActivated :: bool
  isFunded :: bool
  isLocked :: bool
  vip_balance :: jsnum
  effectiveUsers :: nat
  rulesByLevel :: "(string \<times> tier_rule) list"

definition vip_url :: "world \<Rightarrow> string \<Rightarrow> string" where
  "vip_url w userId =
     url (SB w) @ ''/rest/v1/user_state''
       @ ''?select=current_level,is_activated,is_funded,is_locked''
       @ ''&user_id=eq.'' @ encodeURIComponent userId
       @ ''&limit=1''"

definition rules_table :: "(string \<times> tier_rule) list" where
  "rules_table =
     [(''V1'', \<lparr>minBalance = 50, minUsers = 0\<rparr>),
      (''V2'', \<lparr>minBalance = 500, minUsers = 5\<rparr>),
      (''V3'', \<lparr>minBalance = 3000, minUsers = 10\<rparr>),
      (''V4'', \<lparr>minBalance = 10000, minUsers = 30\<rparr>),
      (''V5'', \<lparr>minBalance = 30000, minUsers = 50\<rparr>),
      (''V6'', \<lparr>minBalance = 100000, minUsers = 75\<rparr>)]"

definition level_order :: "string list" where
  "level_order = [''V0'', ''V1'', ''V2'', ''V3'', ''V4'', ''V5'', ''V6'']"

fun indexOf :: "'a list \<Rightarrow> 'a \<Rightarrow> int" where
  "indexOf [] x = - 1"
| "indexOf (y # ys) x =
     (if x = y then 0 else if indexOf ys x < 0 then - 1 else indexOf ys x + 1)"

definition next_level :: "json \<Rightarrow> string option" where
  \<comment> \<open>\<open>idx = order.indexOf(level); if (idx >= 0 && idx < order.length - 1) next = order[idx + 1]\<close>;
      \<open>indexOf\<close> compares with \<open>===\<close>, so only a string can be found\<close>
  "next_level lvl =
     (let idx = indexOf (map JStr level_order) lvl
      in if 0 \<le> idx \<and> idx < int (length level_order) - 1
         then Some (level_order ! nat (idx + 1)) else None)"

definition state_of :: "json \<Rightarrow> json" where
  \<comment> \<open>\<open>Array.isArray(stateRows) && stateRows[0] ? stateRows[0] : {}\<close>\<close>
  "state_of stateRows =
     (case stateRows of
        JArr (x # xs) \<Rightarrow> if truthy x then x else JObj []
      | _ \<Rightarrow> JObj [])"

definition level_of :: "json \<Rightarrow> json" where
  \<comment> \<open>\<open>state.current_level || 'V0'\<close>\<close>
  "level_of state =
     (case get_prop state ''current_level'' of
        None \<Rightarrow> JStr ''V0''
      | Some v \<Rightarrow> if truthy v then v else JStr ''V0'')"

definition counts_as_user :: "member \<Rightarrow> bool" where
  \<comment> \<open>\<open>m.depth && m.depth >= 1\<close>\<close>
  "counts_as_user m =
     (case depth m of
        None \<Rightarrow> False
      | Some d \<Rightarrow> truthy d \<and> jge (to_number d) (Fin 1))"

definition default_vip :: vip_info where
  "default_vip =
     \<lparr>currentLevel = JStr ''V0'', nextLevel = None, isActivated = False, isFunded = False,
      isLocked = False, vip_balance = Fin 0, effectiveUsers = 0, rulesByLevel = []\<rparr>"

definition getVipInfo ::
  "fetch_result \<Rightarrow> fetch_result \<Rightarrow> fetch_result \<Rightarrow> world \<Rightarrow> vip_info outcome \<times> world" where
  \<comment> \<open>the three answers are those of the state lookup, of the wallet refresh and of the team
      query, in the order the function awaits them\<close>
  "getVipInfo r_state r_wallet r_team w =
     (case getItem currentUserId w of
        None \<Rightarrow> (Returned default_vip, w)
      | Some userId \<Rightarrow>
          let w1 = fetch \<lparr>req_method = GET, req_url = vip_url w userId,
                           req_headers = headers (SB w), req_body = None\<rparr> w
          in case r_state of
               NetworkFailure \<Rightarrow> (Thrown FetchRejected, w1)
             | Response is_ok js txt \<Rightarrow>
                 (case (if is_ok then js else Some (JArr [])) of
                    None \<Rightarrow> (Thrown BodyRejected, w1)
                  | Some stateRows \<Rightarrow>
                      let state = state_of stateRows
                      in case getWalletAsync r_wallet w1 of
                           (Thrown e, w2) \<Rightarrow> (Thrown e, w2)
                         | (Returned balanceObj, w2) \<Rightarrow>
                             (case getTeamSummary r_team w2 of
                                (Thrown e, w3) \<Rightarrow> (Thrown e, w3)
                              | (Returned team, w3) \<Rightarrow>
                                  let effUsers = length (filter counts_as_user (members team))
                                  in (Returned
                                        \<lparr>currentLevel = level_of state,
                                         nextLevel = next_level (level_of state),
                                         isActivated = truthy_val (get_prop state ''is_activated''),
                                         isFunded = truthy_val (get_prop state ''is_funded''),
                                         isLocked = truthy_val (get_prop state ''is_locked''),
                                         vip_balance = balance balanceObj,
                                         effectiveUsers = effUsers,
                                         rulesByLevel = rules_table\<rparr>, w3))))"

section \<open>Payout workflow\<close>

definition listPayoutAddresses :: "fetch_result \<Rightarrow> world \<Rightarrow> json list outcome \<times> world" where
  "listPayoutAddresses r w =
     (case getItem currentUserId w of
        None \<Rightarrow> (Returned [], w)
      | Some userId \<Rightarrow>
          let w1 = fetch \<lparr>req_method = GET,
                           req_url = url (SB w) @ ''/rest/v1/user_payout_addresses''
                             @ ''?select=currency,network,address,is_locked,locked_at''
                             @ ''&user_id=eq.'' @ encodeURIComponent userId,
                           req_headers = headers (SB w), req_body = None\<rparr> w
          in case r of
               NetworkFailure \<Rightarrow> (Thrown FetchRejected, w1)
             | Response is_ok js txt \<Rightarrow>
                 if \<not> is_ok then (Returned [], w1)
                 else
                   (case js of
                      None \<Rightarrow> (Thrown BodyRejected, w1)
                    | Some rows \<Rightarrow> (Returned (rows_of rows), w1)))"

definition first_or_null :: "json \<Rightarrow> json" where
  \<comment> \<open>\<open>Array.isArray(data) && data.length ? data[0] : null\<close>\<close>
  "first_or_null data = (case data of JArr (x # xs) \<Rightarrow> x | _ \<Rightarrow> JNull)"

definition or_else :: "string \<Rightarrow> string \<Rightarrow> string" where
  \<comment> \<open>\<open>s || d\<close> on strings\<close>
  "or_else s d = (if s = [] then d else s)"

definition created_row ::
  "string \<Rightarrow> fetch_result \<Rightarrow> world \<Rightarrow> json outcome \<times> world" where
  \<comment> \<open>what \<open>addPayoutAddress\<close> and \<open>requestWithdraw\<close> each do with the answer to their POST\<close>
  "created_row failure r w =
     (case r of
        NetworkFailure \<Rightarrow> (Thrown FetchRejected, w)
      | Response is_ok js txt \<Rightarrow>
          if \<not> is_ok then
            (Thrown (Error (case txt of None \<Rightarrow> failure | Some msg \<Rightarrow> or_else msg failure)), w)
          else
            (case js of
               None \<Rightarrow> (Thrown BodyRejected, w)
             | Some data \<Rightarrow> (Returned (first_or_null data), w)))"

definition addPayoutAddress ::
  "string \<Rightarrow> string \<Rightarrow> string \<Rightarrow> fetch_result \<Rightarrow> world \<Rightarrow> json outcome \<times> world" where
  "addPayoutAddress currency network address r w =
     (case getItem currentUserId w of
        None \<Rightarrow> (Thrown (Error ''Not logged in''), w)
      | Some userId \<Rightarrow>
          let payload = JObj [(''user_id'', JStr userId),
                              (''currency'', JStr (toLowerCase (or_else currency []))),
                              (''network'', JStr (toLowerCase (or_else network []))),
                              (''address'', JStr (or_else address []))]
          in created_row ''Failed to add address'' r
               (fetch \<lparr>req_method = POST, req_url = url (SB w) @ ''/rest/v1/user_payout_addresses'',
                        req_headers = with_prefer (headers (SB w)), req_body = Some payload\<rparr> w))"

definition submitDepositTx :: "string \<Rightarrow> string \<Rightarrow> string \<Rightarrow> world \<Rightarrow> world" where
  "submitDepositTx txHash network currency w =
     (case getItem currentUserId w of
        None \<Rightarrow> w
      | Some userId \<Rightarrow>
          if txHash = [] then w
          else
            let payload = JObj [(''user_id'', JStr userId),
                                (''provider'', JStr ''manual''),
                                (''payment_id'', JStr txHash),
                                (''currency'', JStr (toLowerCase (or_else currency ''usdt''))),
                                (''network'', JStr (toLowerCase (or_else network ''bep20''))),
                                (''amount'', JNum (Fin 0)),
                                (''status'', JStr ''confirmed'')]
            in fetch \<lparr>req_method = POST, req_url = url (SB w) @ ''/rest/v1/deposit_ledger'',
                       req_headers = with_prefer (headers (SB w)), req_body = Some payload\<rparr> w)"

record withdraw_opts =
  currency :: string
  network :: string
  address :: string
  amount :: jsnum
  fee :: "jsnum option"

definition requestWithdraw :: "withdraw_opts \<Rightarrow> fetch_result \<Rightarrow> world \<Rightarrow> json outcome \<times> world" where
  "requestWithdraw opts r w =
     (case getItem currentUserId w of
        None \<Rightarrow> (Thrown (Error ''Not logged in''), w)
      | Some userId \<Rightarrow>
          let payload = JObj [(''user_id'', JStr userId),
                              (''currency'', JStr (toLowerCase (or_else (currency opts) []))),
                              (''network'', JStr (toLowerCase (or_else (network opts) []))),
                              (''to_address'', JStr (or_else (address opts) [])),
                              (''amount'', JNum (amount opts)),
                              (''address'', JStr (or_else (address opts) [])),
                              (''fee'', JNum (case fee opts of None \<Rightarrow> Fin 0 | Some f \<Rightarrow> f))]
          in created_row ''Withdrawal failed'' r
               (fetch \<lparr>req_method = POST, req_url = url (SB w) @ ''/rest/v1/withdraw_requests'',
                        req_headers = with_prefer (headers (SB w)), req_body = Some payload\<rparr> w))"

record user =
  user_id :: "string option"
  phone :: "string option"

definition getUser :: "world \<Rightarrow> user" where
  "getUser w = \<lparr>user_id = getItem currentUserId w, phone = getItem currentPhone w\<rparr>"

section \<open>Vocabulary of the properties\<close>

definition failed_read :: "fetch_result \<Rightarrow> bool" where
  \<comment> \<open>a network or transport failure (the fetch rejects, or the body cannot be read), or a
      response that is not a success\<close>
  "failed_read r =
     (case r of
        NetworkFailure \<Rightarrow> True
      | Response is_ok js txt \<Rightarrow> (if is_ok then js = None else True))"

definition answer_rows :: "fetch_result \<Rightarrow> json list" where
  \<comment> \<open>the rows a successful answer carries\<close>
  "answer_rows r =
     (case r of
        NetworkFailure \<Rightarrow> []
      | Response is_ok js txt \<Rightarrow>
          (if is_ok then (case js of None \<Rightarrow> [] | Some rows \<Rightarrow> rows_of rows) else []))"

definition depth_below_4 :: "json option \<Rightarrow> bool" where
  \<comment> \<open>\<open>depth < 4\<close> as JavaScript compares; \<open>undefined\<close> is below nothing\<close>
  "depth_below_4 v = (case v of None \<Rightarrow> False | Some d \<Rightarrow> jlt (to_number d) (Fin 4))"

definition query_of :: "string \<Rightarrow> string" where
  \<comment> \<open>the query of a URL: what stands after the first \<open>?\<close>, the fragment cut off\<close>
  "query_of target =
     tl (dropWhile (\<lambda>c. c \<noteq> CHR ''?'') (takeWhile (\<lambda>c. c \<noteq> CHR ''#'') target))"

fun split_on :: "char \<Rightarrow> string \<Rightarrow> string list" where
  "split_on c [] = [[]]"
| "split_on c (x # xs) =
     (if x = c then [] # split_on c xs
      else (case split_on c xs of [] \<Rightarrow> [[x]] | s # ss \<Rightarrow> (x # s) # ss))"

definition query_params :: "string \<Rightarrow> (string \<times> string) list" where
  \<comment> \<open>the \<open>name=value\<close> pairs of the query, in order\<close>
  "query_params target =
     map (\<lambda>p. (takeWhile (\<lambda>c. c \<noteq> CHR ''='') p, tl (dropWhile (\<lambda>c. c \<noteq> CHR ''='') p)))
       (split_on CHR ''&'' (query_of target))"

definition row_passes :: "string \<times> string \<Rightarrow> json \<Rightarrow> bool" where
  \<comment> \<open>Modelled from the spec: the remote gateway is not part of the module. A parameter
      \<open>column=lt.n\<close> is the gateway's filter "column below n": a row satisfies it when it has
      the column and its value is below \<open>n\<close>. Any other parameter restricts nothing here.\<close>
  "row_passes p row =
     (if take 3 (snd p) = ''lt.'' then
        (case get_prop row (fst p) of
           None \<Rightarrow> False
         | Some d \<Rightarrow> jlt (to_number d) (string_to_number (drop 3 (snd p))))
      else True)"

definition honours_filters :: "request \<Rightarrow> fetch_result \<Rightarrow> bool" where
  \<comment> \<open>Modelled from the spec: the contract of the gateway's row-oriented read,
      \<open>select(table, filter) -> list<record> | failure\<close>: whatever rows the answer to a
      request carries satisfy the filters written in the request. A failure carries no row.\<close>
  "honours_filters rq r =
     list_all (\<lambda>row. list_all (\<lambda>p. row_passes p row) (query_params (req_url rq)))
       (answer_rows r)"

definition sent_by :: "world \<Rightarrow> world \<Rightarrow> request list" where
  \<comment> \<open>the requests sent between two states\<close>
  "sent_by w w' = drop (length (sent w)) (sent w')"

definition demo_world :: "string option \<Rightarrow> jsnum \<Rightarrow> world" where
  \<comment> \<open>a state to run the operations on: the stored user id and the cached balance are given\<close>
  "demo_world uid bal =
     \<lparr>cache = \<lparr>balance = bal, reserved = Fin 0, totalIncome = Fin 0\<rparr>,
      storage = \<lparr>available = True, currentUserId = uid, currentPhone = None, aiIncome = None\<rparr>,
      SB = \<lparr>url = ''https://sb.example'', headers = [(''apikey'', ''anon'')]\<rparr>,
      clock = ''2024-01-01T00:00:00.000Z'',
      sent = []\<rparr>"

section \<open>Facts about the number model\<close>

lemma round_half_even_of_int: "round_half_even (of_int m) = m"
  by (simp add: round_half_even_def)

lemma ilog2_of_int_le:
  assumes "0 < m" and "m < 2 ^ 53"
  shows "ilog2 (of_int m) \<le> 52"
proof -
  from assms(2) have "bitlen m \<le> 53"
    by (simp add: bitlen_le_iff_power)
  moreover have "bitlen 1 = 1"
    by (simp add: bitlen_alt_def)
  ultimately show ?thesis
    by (simp add: ilog2_def Let_def)
qed

text \<open>An integer below \<open>2 ^ 53\<close> in magnitude is a binary64 value: rounding keeps it.\<close>

lemma round64_of_int:
  assumes "\<bar>n\<bar> < 2 ^ 53"
  shows "round64 (of_int n) = Fin (of_int n)"
proof (cases "n = 0")
  case True
  then show ?thesis by (simp add: round64_def)
next
  case False
  define a :: rat where "a = \<bar>of_int n\<bar>"
  define e where "e = max (ilog2 a - 52) (- 1074)"
  define k where "k = nat (- e)"
  have a: "a = of_int \<bar>n\<bar>" by (simp add: a_def)
  from False assms have "ilog2 a \<le> 52"
    unfolding a by (intro ilog2_of_int_le) auto
  then have e: "e \<le> 0" by (simp add: e_def)
  then have p: "pow2 e = 1 / 2 ^ k"
    by (auto simp: pow2_def k_def)
  have "a / pow2 e = of_int (\<bar>n\<bar> * 2 ^ k)"
    by (simp add: p a)
  then have m: "round_half_even (a / pow2 e) = \<bar>n\<bar> * 2 ^ k"
    by (simp only: round_half_even_of_int)
  have v: "of_int (round_half_even (a / pow2 e)) * pow2 e = a"
    by (subst m) (simp add: p a)
  have "a < 2 ^ 53"
    using assms unfolding a by (metis of_int_less_numeral_power_cancel_iff)
  also have "(2::rat) ^ 53 \<le> 2 ^ 1024" by simp
  finally have lt: "\<not> pow2 1024 \<le> a" by (simp add: pow2_def)
  have "round64 (of_int n) = Fin (if 0 < (of_int n :: rat) then a else - a)"
    using False lt v by (simp add: round64_def Let_def flip: a_def e_def)
  then show ?thesis by (auto simp: a_def)
qed

lemma round64_numeral:
  "numeral k < (2::int) ^ 53 \<Longrightarrow> round64 (numeral k) = Fin (numeral k)"
  "numeral k < (2::int) ^ 53 \<Longrightarrow> round64 (- numeral k) = Fin (- numeral k)"
  "round64 1 = Fin 1"
  using round64_of_int [of "numeral k"] round64_of_int [of "- numeral k"] round64_of_int [of 1]
  by simp_all

lemma jmul_commute: "jmul a b = jmul b a"
  by (cases a; cases b) (simp_all add: mult.commute)

text \<open>
  Rounding at work: \<open>0.1 + 0.2\<close> is \<open>0.30000000000000004\<close>, \<open>3 * 0.05\<close> is
  \<open>0.15000000000000002\<close>, and \<open>20 * 0.05\<close> is \<open>1\<close>.
\<close>

lemma rounding_examples:
  "jadd (round64 (1 / 10)) (round64 (2 / 10)) = Fin (5404319552844596 / 2 ^ 54)"
  "fee_rate = Fin (3602879701896397 / 2 ^ 56)"
  "jmul (Fin 3) fee_rate = Fin (5404319552844596 / 2 ^ 55)"
  "jmul (Fin 20) fee_rate = Fin 1"
  by code_simp+

lemma arithmetic_examples:
  "jsub (Fin 100) (Fin 20) = Fin 80"
  "jadd (Fin 0) (Fin 10) = Fin 10"
  "jadd (Fin 100) (Fin 10) = Fin 110"
  "jadd (Fin 0) (Fin 1) = Fin 1"
  by (simp_all add: jsub_def round64_numeral)

lemma fee_of_20: "jmul fee_rate (Fin 20) = Fin 1"
  by (subst jmul_commute) (rule rounding_examples)

lemmas parse_defs =
  parseFloat_def str_decimal_def str_unsigned_def str_exponent_def is_space_def
  is_digit_def digits_val_def digit_val_def pow10_def Let_def

lemma parseFloat_examples:
  "parseFloat ''100'' = Fin 100"
  "parseFloat '' -12.5e1xyz'' = Fin (- 125)"
  "parseFloat ''abc'' = NaN"
  "parseFloat ''Infinity'' = PInf"
  by (simp_all add: parse_defs round64_numeral)

lemma positive_finite:
  "isFinite a \<Longrightarrow> jgt a (Fin 0) \<Longrightarrow> num_truthy a \<and> \<not> jle a (Fin 0)"
  by (cases a) (auto simp: jgt_def num_truthy_def)

lemma jge_not_jlt: "jge b a \<Longrightarrow> \<not> jlt b a"
  by (cases a; cases b) (auto simp: jge_def)

section \<open>Facts about the operations\<close>

lemma fetch_simps:
  "sent (fetch r w) = sent w @ [r]"
  "cache (fetch r w) = cache w"
  "storage (fetch r w) = storage w"
  "SB (fetch r w) = SB w"
  "clock (fetch r w) = clock w"
  by (simp_all add: fetch_def)

lemma getItem_simps:
  "getItem k (fetch r w) = getItem k w"
  "getItem k (w\<lparr>cache := c\<rparr>) = getItem k w"
  by (simp_all add: getItem_def fetch_def)

lemma demo_world_simps:
  "getItem currentUserId (demo_world None bal) = None"
  "getItem currentUserId (demo_world (Some ''u1'') bal) = Some ''u1''"
  "cache (demo_world uid bal) = \<lparr>balance = bal, reserved = Fin 0, totalIncome = Fin 0\<rparr>"
  "sent (demo_world uid bal) = []"
  "SB (demo_world uid bal) = \<lparr>url = ''https://sb.example'', headers = [(''apikey'', ''anon'')]\<rparr>"
  by (simp_all add: demo_world_def getItem_def)

lemma withdraw_rejected:
  "\<not> isFinite a \<or> jle a (Fin 0) \<or> jgt a (balance (cache w)) \<Longrightarrow> withdraw a w = (None, w)"
  by (auto simp: withdraw_def Let_def jgt_def)

lemma withdraw_accepted:
  assumes "isFinite a" and "jgt a (Fin 0)" and "jge (balance (cache w)) a"
  shows "withdraw a w =
     (Some \<lparr>snap_balance = jsub (balance (cache w)) a, snap_totalIncome = totalIncome (cache w)\<rparr>,
      (case getItem currentUserId w of
         None \<Rightarrow> w\<lparr>cache := (cache w)\<lparr>balance := jsub (balance (cache w)) a\<rparr>\<rparr>
       | Some userId \<Rightarrow>
           fetch (withdraw_request (w\<lparr>cache := (cache w)\<lparr>balance := jsub (balance (cache w)) a\<rparr>\<rparr>)
                    userId a (jmul a fee_rate))
             (fetch (balance_patch (w\<lparr>cache := (cache w)\<lparr>balance := jsub (balance (cache w)) a\<rparr>\<rparr>)
                      userId)
                (w\<lparr>cache := (cache w)\<lparr>balance := jsub (balance (cache w)) a\<rparr>\<rparr>))))"
proof -
  from assms have "num_truthy a" "\<not> jle a (Fin 0)" "\<not> jlt (balance (cache w)) a"
    using positive_finite jge_not_jlt by blast+
  with assms(1) show ?thesis
    by (simp add: withdraw_def Let_def getItem_simps fetch_simps split: option.split)
qed

lemma withdraw_frame:
  "reserved (cache (snd (withdraw a w))) = reserved (cache w)"
  "totalIncome (cache (snd (withdraw a w))) = totalIncome (cache w)"
  by (simp_all add: withdraw_def Let_def fetch_simps split: option.split)

lemma withdraw_absent:
  "getItem currentUserId w = None \<Longrightarrow> sent (snd (withdraw a w)) = sent w"
  by (simp add: withdraw_def Let_def getItem_simps)

lemma recordDeposit_rejected:
  "\<not> isFinite a \<or> jle a (Fin 0) \<Longrightarrow> recordDeposit a w = w"
  by (auto simp: recordDeposit_def)

lemma recordDeposit_accepted:
  assumes "isFinite a" and "jgt a (Fin 0)"
  shows "balance (cache (recordDeposit a w)) = jadd (balance (cache w)) a"
proof -
  from assms have "num_truthy a" "\<not> jle a (Fin 0)"
    using positive_finite by blast+
  with assms(1) show ?thesis
    by (simp add: recordDeposit_def Let_def getItem_simps fetch_simps split: option.split)
qed

lemma recordDeposit_frame:
  "reserved (cache (recordDeposit a w)) = reserved (cache w)"
  "totalIncome (cache (recordDeposit a w)) = totalIncome (cache w)"
  by (simp_all add: recordDeposit_def Let_def fetch_simps split: option.split)

lemma recordDeposit_absent:
  "getItem currentUserId w = None \<Longrightarrow> sent (recordDeposit a w) = sent w"
  by (simp add: recordDeposit_def Let_def getItem_simps)

lemma settled_cache: "cache (settled r w) = cache w"
  by (simp add: settled_def split: fetch_result.split)

lemma addIncome_frame:
  "balance (cache (addIncome a w)) = balance (cache w)"
  "reserved (cache (addIncome a w)) = reserved (cache w)"
  "sent (addIncome a w) = sent w"
  by (simp_all add: addIncome_def Let_def)

lemma addIncome_accepted:
  assumes "isFinite a" and "jgt a (Fin 0)"
  shows "totalIncome (cache (addIncome a w)) = jadd (totalIncome (cache w)) a"
proof -
  from assms have "num_truthy a" "\<not> jle a (Fin 0)"
    using positive_finite by blast+
  with assms(1) show ?thesis
    by (simp add: addIncome_def Let_def)
qed

lemma refreshWallet_returns: "fst (refreshWallet r w) = Returned ()"
  by (simp add: refreshWallet_def split: option.split prod.split outcome.split)

lemma refreshWallet_absent:
  "getItem currentUserId w = None \<Longrightarrow> refreshWallet r w = (Returned (), w)"
  by (simp add: refreshWallet_def)

lemma refreshWallet_snd:
  "getItem currentUserId w = Some u \<Longrightarrow> snd (refreshWallet r w) = snd (refresh_try u r w)"
  by (simp add: refreshWallet_def split: prod.split outcome.split)

lemma refresh_try_failed:
  "failed_read r \<Longrightarrow> cache (snd (refresh_try u r w)) = cache w"
  by (auto simp: failed_read_def refresh_try_def Let_def fetch_simps
      split: fetch_result.splits if_splits)

lemma refreshWallet_failed:
  "failed_read r \<Longrightarrow> cache (snd (refreshWallet r w)) = cache w"
  by (cases "getItem currentUserId w")
     (simp_all add: refreshWallet_absent refreshWallet_snd refresh_try_failed)

lemma refresh_try_row:
  "row \<noteq> JNull \<Longrightarrow>
   cache (snd (refresh_try u (Response True (Some (JArr (row # rest))) txt) w)) =
     (cache w)\<lparr>balance := (if isNaN (parseFloat_val (get_prop row ''usdt_balance''))
                            then balance (cache w)
                            else parseFloat_val (get_prop row ''usdt_balance'')),
               reserved := (if isNaN (parseFloat_val (get_prop row ''usdt_reserved''))
                            then reserved (cache w)
                            else parseFloat_val (get_prop row ''usdt_reserved''))\<rparr>"
  by (simp add: refresh_try_def Let_def fetch_simps)

lemma getWalletAsync_absent:
  "getItem currentUserId w = None \<Longrightarrow> getWalletAsync r w = (Returned (getWalletSync w), w)"
  by (simp add: getWalletAsync_def refreshWallet_absent)

lemma team_members_depths:
  "team_members rs = Returned ms \<Longrightarrow> map depth ms = map (\<lambda>r. get_prop r ''depth'') rs"
  by (induction rs arbitrary: ms) (auto split: if_splits outcome.splits)

lemma getTeamSummary_absent:
  "getItem currentUserId w = None \<Longrightarrow> getTeamSummary r w = (Returned \<lparr>members = []\<rparr>, w)"
  by (simp add: getTeamSummary_def)

lemma getTeamSummary_request:
  "getItem currentUserId w = Some u \<Longrightarrow>
   sent (snd (getTeamSummary r w)) =
     sent w @ [\<lparr>req_method = GET, req_url = team_url w u, req_headers = headers (SB w), req_body = None\<rparr>]"
  by (simp add: getTeamSummary_def Let_def fetch_simps
      split: fetch_result.split option.split outcome.split)

lemma getTeamSummary_depths:
  "fst (getTeamSummary r w) = Returned t \<Longrightarrow>
   members t = [] \<or> map depth (members t) = map (\<lambda>row. get_prop row ''depth'') (answer_rows r)"
  by (auto simp: getTeamSummary_def Let_def answer_rows_def team_members_depths
      split: fetch_result.splits option.splits outcome.splits if_splits)

lemma getTeamSummary_failed:
  "getItem currentUserId w = Some u \<Longrightarrow>
   fst (getTeamSummary (Response False js txt) w) = Returned \<lparr>members = []\<rparr>"
  "getItem currentUserId w = Some u \<Longrightarrow>
   fst (getTeamSummary NetworkFailure w) = Thrown FetchRejected"
  "getItem currentUserId w = Some u \<Longrightarrow>
   fst (getTeamSummary (Response True None txt) w) = Thrown BodyRejected"
  by (simp_all add: getTeamSummary_def Let_def)

lemma listPayoutAddresses_absent:
  "getItem currentUserId w = None \<Longrightarrow> listPayoutAddresses r w = (Returned [], w)"
  by (simp add: listPayoutAddresses_def)

lemma listPayoutAddresses_failed:
  "getItem currentUserId w = Some u \<Longrightarrow>
   fst (listPayoutAddresses (Response False js txt) w) = Returned []"
  "getItem currentUserId w = Some u \<Longrightarrow>
   fst (listPayoutAddresses NetworkFailure w) = Thrown FetchRejected"
  "getItem currentUserId w = Some u \<Longrightarrow>
   fst (listPayoutAddresses (Response True None txt) w) = Thrown BodyRejected"
  by (simp_all add: listPayoutAddresses_def Let_def)

lemma indexOf_notin: "x \<notin> set ys \<Longrightarrow> indexOf ys x = - 1"
  by (induction ys) auto

lemma next_level_known:
  "next_level (JStr ''V0'') = Some ''V1''"
  "next_level (JStr ''V1'') = Some ''V2''"
  "next_level (JStr ''V2'') = Some ''V3''"
  "next_level (JStr ''V3'') = Some ''V4''"
  "next_level (JStr ''V4'') = Some ''V5''"
  "next_level (JStr ''V5'') = Some ''V6''"
  "next_level (JStr ''V6'') = None"
  by (simp_all add: next_level_def level_order_def)

lemma next_level_unknown:
  assumes "s \<notin> set level_order"
  shows "next_level (JStr s) = None"
proof -
  from assms have "JStr s \<notin> set (map JStr level_order)" by auto
  then show ?thesis by (simp add: next_level_def indexOf_notin)
qed

lemma getVipInfo_absent:
  "getItem currentUserId w = None \<Longrightarrow> getVipInfo r1 r2 r3 w = (Returned default_vip, w)"
  by (simp add: getVipInfo_def)

lemma getVipInfo_next:
  "getItem currentUserId w = Some u \<Longrightarrow> fst (getVipInfo r1 r2 r3 w) = Returned v \<Longrightarrow>
   nextLevel v = next_level (currentLevel v)"
  by (auto simp: getVipInfo_def Let_def
      split: fetch_result.splits option.splits prod.splits outcome.splits)

lemma getVipInfo_not_ok:
  "getVipInfo (Response False js txt) r2 r3 w
     = getVipInfo (Response True (Some (JArr [])) txt) r2 r3 w"
  by (cases "getItem currentUserId w") (simp_all add: getVipInfo_def Let_def)

lemma getVipInfo_failed:
  "getItem currentUserId w = Some u \<Longrightarrow>
   fst (getVipInfo NetworkFailure r2 r3 w) = Thrown FetchRejected"
  "getItem currentUserId w = Some u \<Longrightarrow>
   fst (getVipInfo (Response True None txt) r2 r3 w) = Thrown BodyRejected"
  by (simp_all add: getVipInfo_def Let_def)

lemma getVipInfo_failed_state:
  "getItem currentUserId w = Some u \<Longrightarrow>
   fst (getVipInfo (Response False js txt) r2 r3 w) = Returned v \<Longrightarrow>
   currentLevel v = JStr ''V0'' \<and> \<not> isActivated v \<and> \<not> isFunded v \<and> \<not> isLocked v"
  by (auto simp: getVipInfo_def Let_def state_of_def level_of_def truthy_val_def
      split: prod.splits outcome.splits)

lemma not_logged_in:
  "getItem currentUserId w = None \<Longrightarrow>
   addPayoutAddress c n a r w = (Thrown (Error ''Not logged in''), w)"
  "getItem currentUserId w = None \<Longrightarrow>
   requestWithdraw opts r w = (Thrown (Error ''Not logged in''), w)"
  "getItem currentUserId w = None \<Longrightarrow> submitDepositTx h n c w = w"
  by (simp_all add: addPayoutAddress_def requestWithdraw_def submitDepositTx_def)

text \<open>
  The race the cache accepts: 100 cached, a withdrawal of 20 leaves 80, and a refresh that
  still reads \<open>usdt_balance: "100"\<close> (the PATCH has not landed) puts 100 back.
\<close>

lemma withdraw_then_stale_refresh:
  "balance (cache (snd (withdraw (Fin 20) (demo_world (Some ''u1'') (Fin 100))))) = Fin 80"
  "balance (cache (snd (refreshWallet
      (Response True (Some (JArr [JObj [(''usdt_balance'', JStr ''100'')]])) None)
      (snd (withdraw (Fin 20) (demo_world (Some ''u1'') (Fin 100))))))) = Fin 100"
proof -
  let ?W = "demo_world (Some ''u1'') (Fin 100)"
  have h: "isFinite (Fin 20)" "jgt (Fin 20) (Fin 0)" "jge (balance (cache ?W)) (Fin 20)"
    by (simp_all add: jgt_def jge_def demo_world_simps)
  have u: "getItem currentUserId (snd (withdraw (Fin 20) ?W)) = Some ''u1''"
    by (simp add: withdraw_accepted [OF h] getItem_simps demo_world_simps)
  show "balance (cache (snd (withdraw (Fin 20) ?W))) = Fin 80"
    by (simp add: withdraw_accepted [OF h] fetch_simps demo_world_simps arithmetic_examples)
  show "balance (cache (snd (refreshWallet
      (Response True (Some (JArr [JObj [(''usdt_balance'', JStr ''100'')]])) None)
      (snd (withdraw (Fin 20) ?W))))) = Fin 100"
    by (simp add: refreshWallet_snd [OF u] refresh_try_row parseFloat_val_def
        parseFloat_examples)
qed

section \<open>Facts about the query of a request\<close>

lemma hash_not_hex: "i < 16 \<Longrightarrow> ''0123456789ABCDEF'' ! i \<noteq> CHR ''#''"
proof -
  assume "i < 16"
  then have "''0123456789ABCDEF'' ! i \<in> set ''0123456789ABCDEF''"
    by (intro nth_mem) simp
  moreover have "CHR ''#'' \<notin> set ''0123456789ABCDEF''"
    by simp
  ultimately show ?thesis by metis
qed

lemma percent_no_hash: "b < 256 \<Longrightarrow> CHR ''#'' \<notin> set (percent b)"
proof -
  assume "b < 256"
  then have "b div 16 < 16" "b mod 16 < 16" by simp_all
  then have "''0123456789ABCDEF'' ! (b div 16) \<noteq> CHR ''#''"
    "''0123456789ABCDEF'' ! (b mod 16) \<noteq> CHR ''#''"
    using hash_not_hex by blast+
  moreover have "set (percent b)
      = {CHR ''%'', ''0123456789ABCDEF'' ! (b div 16), ''0123456789ABCDEF'' ! (b mod 16)}"
    unfolding percent_def by (simp only: list.simps(15) set_empty2 list.set)
  ultimately show ?thesis by auto
qed

lemma hash_reserved: "\<not> uri_unreserved CHR ''#''"
  by (simp add: uri_unreserved_def)

lemma two_bytes: "k < 256 \<Longrightarrow> 192 + k div 64 < 256 \<and> 128 + k mod 64 < 256" for k :: nat
  by arith

lemma encode_char_no_hash: "CHR ''#'' \<notin> set (encode_char c)"
proof (cases "uri_unreserved c")
  case True
  with hash_reserved have "c \<noteq> CHR ''#''" by metis
  with True show ?thesis by (simp add: encode_char_def)
next
  case False
  have n: "(of_char c :: nat) < 256" by simp
  from two_bytes [OF n]
  have "CHR ''#'' \<notin> set (percent (192 + (of_char c :: nat) div 64))"
    "CHR ''#'' \<notin> set (percent (128 + (of_char c :: nat) mod 64))"
    using percent_no_hash by blast+
  moreover from n have "CHR ''#'' \<notin> set (percent (of_char c))"
    by (rule percent_no_hash)
  ultimately show ?thesis
    using False by (simp add: encode_char_def Let_def)
qed

lemma encodeURIComponent_no_hash: "CHR ''#'' \<notin> set (encodeURIComponent s)"
  by (induction s) (simp_all add: encodeURIComponent_def encode_char_no_hash)

lemma tl_dropWhile_suffix:
  "\<exists>x. tl (dropWhile (\<lambda>c. c \<noteq> q) (a @ q # rest)) = x @ rest"
proof (induction a)
  case Nil
  show ?case by simp
next
  case (Cons h a)
  show ?case
  proof (cases "h = q")
    case True
    then have "tl (dropWhile (\<lambda>c. c \<noteq> q) ((h # a) @ q # rest)) = (a @ [q]) @ rest"
      by simp
    then show ?thesis by blast
  next
    case False
    with Cons show ?thesis by simp
  qed
qed

lemma split_on_single: "c \<notin> set t \<Longrightarrow> split_on c t = [t]"
  by (induction t) auto

lemma split_on_suffix:
  "\<exists>p ps. split_on c (x @ c # t) = (p # ps) @ split_on c t"
proof (induction x)
  case Nil
  have "split_on c ([] @ c # t) = ([] # []) @ split_on c t" by simp
  then show ?case by blast
next
  case (Cons h x)
  then obtain p ps where ps: "split_on c (x @ c # t) = (p # ps) @ split_on c t" by blast
  show ?case
  proof (cases "h = c")
    case True
    with ps have "split_on c ((h # x) @ c # t) = ([] # p # ps) @ split_on c t" by simp
    then show ?thesis by blast
  next
    case False
    with ps have "split_on c ((h # x) @ c # t) = ((h # p) # ps) @ split_on c t"
      by simp
    then show ?thesis by blast
  qed
qed

lemma last_param:
  assumes "CHR ''&'' \<notin> set t"
  shows "t \<in> set (split_on CHR ''&'' (x @ CHR ''&'' # t))"
proof -
  obtain p ps where "split_on CHR ''&'' (x @ CHR ''&'' # t) = (p # ps) @ split_on CHR ''&'' t"
    using split_on_suffix [of "CHR ''&''" x t] by (elim exE)
  with assms show ?thesis by (simp add: split_on_single)
qed

lemma team_url_query:
  assumes "CHR ''#'' \<notin> set (url (SB w))"
  shows "\<exists>x. query_of (team_url w u) = x @ ''&depth=lt.4''"
proof -
  let ?a = "url (SB w) @ ''/rest/v1/invite_edges''"
  let ?b = "''select=descendant_id,depth'' @ ''&ancestor_id=eq.'' @ encodeURIComponent u"
  have t: "team_url w u = ?a @ CHR ''?'' # (?b @ ''&depth=lt.4'')"
    by (simp add: team_url_def)
  from assms have "CHR ''#'' \<notin> set (team_url w u)"
    by (simp add: team_url_def encodeURIComponent_no_hash)
  then have "takeWhile (\<lambda>c. c \<noteq> CHR ''#'') (team_url w u) = team_url w u"
    by auto
  then have "query_of (team_url w u)
      = tl (dropWhile (\<lambda>c. c \<noteq> CHR ''?'') (?a @ CHR ''?'' # (?b @ ''&depth=lt.4'')))"
    unfolding query_of_def by (simp only: t)
  moreover obtain x where
    "tl (dropWhile (\<lambda>c. c \<noteq> CHR ''?'') (?a @ CHR ''?'' # (?b @ ''&depth=lt.4'')))
       = x @ (?b @ ''&depth=lt.4'')"
    using tl_dropWhile_suffix [of "CHR ''?''" ?a "?b @ ''&depth=lt.4''"] by (elim exE)
  ultimately have "query_of (team_url w u) = (x @ ?b) @ ''&depth=lt.4''"
    by simp
  then show ?thesis by blast
qed

lemma team_url_depth_param:
  assumes "CHR ''#'' \<notin> set (url (SB w))"
  shows "(''depth'', ''lt.4'') \<in> set (query_params (team_url w u))"
proof -
  from team_url_query [OF assms] obtain x where
    "query_of (team_url w u) = x @ CHR ''&'' # ''depth=lt.4''"
    by auto
  moreover have "CHR ''&'' \<notin> set ''depth=lt.4''" by simp
  ultimately have "''depth=lt.4'' \<in> set (split_on CHR ''&'' (query_of (team_url w u)))"
    by (simp add: last_param)
  then have "(takeWhile (\<lambda>c. c \<noteq> CHR ''='') ''depth=lt.4'',
              tl (dropWhile (\<lambda>c. c \<noteq> CHR ''='') ''depth=lt.4''))
             \<in> set (query_params (team_url w u))"
    unfolding query_params_def by (simp only: set_map) (rule imageI)
  then show ?thesis by simp
qed

lemma four: "string_to_number ''4'' = Fin 4"
  by (simp add: string_to_number_def trim_def parse_defs round64_numeral)

lemma row_passes_depth:
  "row_passes (''depth'', ''lt.4'') row \<Longrightarrow> depth_below_4 (get_prop row ''depth'')"
  by (simp add: row_passes_def depth_below_4_def four split: option.splits)

lemma honoured_rows:
  assumes "honours_filters rq r" and "(''depth'', ''lt.4'') \<in> set (query_params (req_url rq))"
    and "row \<in> set (answer_rows r)"
  shows "depth_below_4 (get_prop row ''depth'')"
proof -
  from assms(1,3) have "list_all (\<lambda>p. row_passes p row) (query_params (req_url rq))"
    by (simp add: honours_filters_def list_all_iff)
  with assms(2) have "row_passes (''depth'', ''lt.4'') row"
    by (simp add: list_all_iff)
  then show ?thesis by (rule row_passes_depth)
qed

section \<open>Withdrawals\<close>

text \<open>
  Claim C1. For a positive finite amount that the cached balance \<open>B\<close> covers (\<open>B >= amount\<close>),
  \<open>withdraw\<close> returns a snapshot whose balance is \<open>B - amount\<close>, the cache holding the same
  value: the fee is not taken off locally. With a user logged in the call sends two requests,
  the PATCH of the wallet row and then the POST of the withdraw request, whose record carries
  the amount and the fee \<open>0.05 * amount\<close>; with no user it sends nothing.
\<close>

theorem withdraw_deducts_amount:
  assumes "isFinite a" and "jgt a (Fin 0)" and "jge (balance (cache w)) a"
  shows "(\<exists>snap. fst (withdraw a w) = Some snap
            \<and> snap_balance snap = jsub (balance (cache w)) a)
         \<and> balance (cache (snd (withdraw a w))) = jsub (balance (cache w)) a
         \<and> (\<forall>u. getItem currentUserId w = Some u \<longrightarrow>
               (\<exists>p q b. sent (snd (withdraw a w)) = sent w @ [p, q]
                  \<and> req_method p = PATCH \<and> req_method q = POST
                  \<and> req_url q = url (SB w) @ ''/rest/v1/withdraw_requests''
                  \<and> req_body q = Some b
                  \<and> get_prop b ''amount'' = Some (JNum a)
                  \<and> get_prop b ''fee'' = Some (JNum (jmul fee_rate a))))
         \<and> (getItem currentUserId w = None \<longrightarrow> sent (snd (withdraw a w)) = sent w)"
  by (simp add: withdraw_accepted [OF assms] fetch_simps withdraw_request_def balance_patch_def
      jmul_commute split: option.split)

text \<open>Withdrawing 20 from a cached balance of 100, logged in: 80 remains and the fee sent is 1.\<close>

theorem withdraw_deducts_amount_witness:
  "isFinite (Fin 20) \<and> jgt (Fin 20) (Fin 0)
   \<and> jge (balance (cache (demo_world (Some ''u1'') (Fin 100)))) (Fin 20)
   \<and> getItem currentUserId (demo_world (Some ''u1'') (Fin 100)) = Some ''u1''
   \<and> (\<exists>snap. fst (withdraw (Fin 20) (demo_world (Some ''u1'') (Fin 100))) = Some snap
         \<and> snap_balance snap = Fin 80)
   \<and> (\<exists>p q b. sent (snd (withdraw (Fin 20) (demo_world (Some ''u1'') (Fin 100)))) = [p, q]
         \<and> req_method p = PATCH \<and> req_method q = POST
         \<and> req_url q = ''https://sb.example/rest/v1/withdraw_requests''
         \<and> req_body q = Some b
         \<and> get_prop b ''amount'' = Some (JNum (Fin 20))
         \<and> get_prop b ''fee'' = Some (JNum (Fin 1)))"
proof -
  let ?W = "demo_world (Some ''u1'') (Fin 100)"
  have h: "isFinite (Fin 20)" "jgt (Fin 20) (Fin 0)" "jge (balance (cache ?W)) (Fin 20)"
    by (simp_all add: jgt_def jge_def demo_world_simps)
  have u: "getItem currentUserId ?W = Some ''u1''"
    by (simp add: demo_world_simps)
  from withdraw_deducts_amount [OF h] u
  show ?thesis
    using h by (simp add: demo_world_simps arithmetic_examples fee_of_20)
qed

text \<open>
  Claim C2. An amount that is not positive, not finite, or strictly greater than the cached
  balance makes \<open>withdraw\<close> return \<open>null\<close> and leave everything as it was: the balance is
  unchanged and no request is sent.
\<close>

theorem withdraw_rejects:
  assumes "\<not> isFinite a \<or> jle a (Fin 0) \<or> jgt a (balance (cache w))"
  shows "withdraw a w = (None, w)"
  using assms by (rule withdraw_rejected)

theorem withdraw_rejects_witness:
  "\<not> isFinite NaN
   \<and> withdraw NaN (demo_world (Some ''u1'') (Fin 100)) = (None, demo_world (Some ''u1'') (Fin 100))
   \<and> \<not> isFinite PInf
   \<and> withdraw PInf (demo_world (Some ''u1'') (Fin 100)) = (None, demo_world (Some ''u1'') (Fin 100))
   \<and> jle (Fin (- 5)) (Fin 0)
   \<and> withdraw (Fin (- 5)) (demo_world (Some ''u1'') (Fin 100))
       = (None, demo_world (Some ''u1'') (Fin 100))
   \<and> jgt (Fin 200) (balance (cache (demo_world (Some ''u1'') (Fin 100))))
   \<and> withdraw (Fin 200) (demo_world (Some ''u1'') (Fin 100))
       = (None, demo_world (Some ''u1'') (Fin 100))"
proof -
  let ?W = "demo_world (Some ''u1'') (Fin 100)"
  have h: "\<not> isFinite NaN" "\<not> isFinite PInf" "jle (Fin (- 5)) (Fin 0)"
    "jgt (Fin 200) (balance (cache ?W))"
    by (simp_all add: jgt_def demo_world_simps)
  show ?thesis
    using h withdraw_rejects [of NaN ?W] withdraw_rejects [of PInf ?W]
      withdraw_rejects [of "Fin (- 5)" ?W] withdraw_rejects [of "Fin 200" ?W]
    by blast
qed

section \<open>Deposits\<close>

text \<open>
  Claim C5. \<open>recordDeposit\<close> with an amount that is not positive or not finite changes
  nothing. With a positive finite amount the cached balance becomes \<open>balance + amount\<close> at
  once, and stays so however the request left behind is settled, by a response or by a
  failure.
\<close>

theorem recordDeposit_increments:
  "(\<not> isFinite a \<or> jle a (Fin 0) \<longrightarrow> recordDeposit a w = w)
   \<and> (isFinite a \<and> jgt a (Fin 0) \<longrightarrow>
        balance (cache (recordDeposit a w)) = jadd (balance (cache w)) a
        \<and> (\<forall>r. balance (cache (settled r (recordDeposit a w))) = jadd (balance (cache w)) a))"
  by (simp add: recordDeposit_rejected recordDeposit_accepted settled_cache)

theorem recordDeposit_increments_witness:
  "\<not> isFinite NaN
   \<and> recordDeposit NaN (demo_world (Some ''u1'') (Fin 100)) = demo_world (Some ''u1'') (Fin 100)
   \<and> jle (Fin 0) (Fin 0)
   \<and> recordDeposit (Fin 0) (demo_world (Some ''u1'') (Fin 100)) = demo_world (Some ''u1'') (Fin 100)
   \<and> isFinite (Fin 10) \<and> jgt (Fin 10) (Fin 0)
   \<and> balance (cache (recordDeposit (Fin 10) (demo_world (Some ''u1'') (Fin 100)))) = Fin 110
   \<and> balance (cache (settled NetworkFailure
         (recordDeposit (Fin 10) (demo_world (Some ''u1'') (Fin 100))))) = Fin 110
   \<and> balance (cache (settled (Response True None None)
         (recordDeposit (Fin 10) (demo_world (Some ''u1'') (Fin 100))))) = Fin 110"
proof -
  let ?W = "demo_world (Some ''u1'') (Fin 100)"
  have h: "\<not> isFinite NaN" "jle (Fin 0) (Fin 0)" "isFinite (Fin 10)" "jgt (Fin 10) (Fin 0)"
    by (simp_all add: jgt_def)
  have b: "jadd (balance (cache ?W)) (Fin 10) = Fin 110"
    by (simp only: demo_world_simps wallet_cache.simps arithmetic_examples)
  show ?thesis
    using h recordDeposit_increments [of NaN ?W] recordDeposit_increments [of "Fin 0" ?W]
      recordDeposit_increments [of "Fin 10" ?W]
    unfolding b by blast
qed

section \<open>Frame conditions\<close>

text \<open>
  Claim C10. \<open>withdraw\<close> and \<open>recordDeposit\<close> never change \<open>reserved\<close> or \<open>totalIncome\<close>,
  and \<open>addIncome\<close> never changes \<open>balance\<close> or \<open>reserved\<close>: of the three fields of the
  cache each of these operations writes at most its own.
\<close>

theorem cache_frame:
  "reserved (cache (snd (withdraw a w))) = reserved (cache w)
   \<and> totalIncome (cache (snd (withdraw a w))) = totalIncome (cache w)
   \<and> reserved (cache (recordDeposit a w)) = reserved (cache w)
   \<and> totalIncome (cache (recordDeposit a w)) = totalIncome (cache w)
   \<and> balance (cache (addIncome a w)) = balance (cache w)
   \<and> reserved (cache (addIncome a w)) = reserved (cache w)"
  by (simp add: withdraw_frame recordDeposit_frame addIncome_frame)

theorem cache_frame_witness:
  "reserved (cache (snd (withdraw (Fin 20) (demo_world (Some ''u1'') (Fin 100))))) = Fin 0
   \<and> totalIncome (cache (snd (withdraw (Fin 20) (demo_world (Some ''u1'') (Fin 100))))) = Fin 0
   \<and> reserved (cache (recordDeposit (Fin 20) (demo_world (Some ''u1'') (Fin 100)))) = Fin 0
   \<and> totalIncome (cache (recordDeposit (Fin 20) (demo_world (Some ''u1'') (Fin 100)))) = Fin 0
   \<and> balance (cache (addIncome (Fin 20) (demo_world (Some ''u1'') (Fin 100)))) = Fin 100
   \<and> reserved (cache (addIncome (Fin 20) (demo_world (Some ''u1'') (Fin 100)))) = Fin 0"
  using cache_frame [of "Fin 20" "demo_world (Some ''u1'') (Fin 100)"]
  by (simp add: demo_world_simps)

section \<open>Refreshing the cache\<close>



section \<open>Membership tiers\<close>

text \<open>
  Claim C7. The next level that \<open>getVipInfo\<close> computes is the successor of the current level
  in the sequence V0, V1, V2, V3, V4, V5, V6 for each of V0 to V5, is \<open>null\<close> for V6, and is
  \<open>null\<close> for every string that is not in the sequence. Whenever a logged-in call returns,
  the \<open>nextLevel\<close> of the snapshot is that function of its \<open>currentLevel\<close>.
\<close>

theorem nextLevel_is_successor:
  "next_level (JStr ''V0'') = Some ''V1''
   \<and> next_level (JStr ''V1'') = Some ''V2''
   \<and> next_level (JStr ''V2'') = Some ''V3''
   \<and> next_level (JStr ''V3'') = Some ''V4''
   \<and> next_level (JStr ''V4'') = Some ''V5''
   \<and> next_level (JStr ''V5'') = Some ''V6''
   \<and> next_level (JStr ''V6'') = None
   \<and> (\<forall>s. s \<notin> set level_order \<longrightarrow> next_level (JStr s) = None)
   \<and> (\<forall>u v. getItem currentUserId w = Some u \<and> fst (getVipInfo r1 r2 r3 w) = Returned v
         \<longrightarrow> nextLevel v = next_level (currentLevel v))"
  using next_level_known next_level_unknown getVipInfo_next by blast

text \<open>
  A logged-in call whose state row says V3 (the wallet refresh failing, the team query
  answered with a non-success) returns V3 with next level V4; the unknown label V9 has none.
\<close>

theorem nextLevel_is_successor_witness:
  "''V9'' \<notin> set level_order
   \<and> next_level (JStr ''V9'') = None
   \<and> getItem currentUserId (demo_world (Some ''u1'') (Fin 80)) = Some ''u1''
   \<and> (\<exists>v. fst (getVipInfo
                (Response True
                   (Some (JArr [JObj [(''current_level'', JStr ''V3''),
                                      (''is_activated'', JBool True)]])) None)
                NetworkFailure (Response False None None)
                (demo_world (Some ''u1'') (Fin 80))) = Returned v
          \<and> currentLevel v = JStr ''V3'' \<and> nextLevel v = Some ''V4'')"
proof -
  let ?W = "demo_world (Some ''u1'') (Fin 80)"
  let ?r1 = "Response True
               (Some (JArr [JObj [(''current_level'', JStr ''V3''),
                                  (''is_activated'', JBool True)]])) None"
  note t = nextLevel_is_successor [of ?W ?r1 NetworkFailure "Response False None None"]
  have n: "''V9'' \<notin> set level_order"
    by (simp add: level_order_def)
  have u: "getItem currentUserId ?W = Some ''u1''"
    by (simp add: demo_world_simps)
  obtain v where v: "fst (getVipInfo ?r1 NetworkFailure (Response False None None) ?W) = Returned v"
    and l: "currentLevel v = JStr ''V3''"
    by (simp add: getVipInfo_def getWalletAsync_def refreshWallet_def refresh_try_def
        getTeamSummary_def Let_def getItem_simps u state_of_def level_of_def)
  from t u v have "nextLevel v = next_level (currentLevel v)" by blast
  with t l have "nextLevel v = Some ''V4''" by simp
  with t n u v l show ?thesis by blast
qed

text \<open>
  Claim C8. With no user logged in, \<open>getVipInfo\<close> returns exactly the snapshot
  \<open>{currentLevel: 'V0', nextLevel: null, isActivated: false, isFunded: false, isLocked: false,
  balance: 0, effectiveUsers: 0, rulesByLevel: {}}\<close> and leaves the state as it was: no
  request is sent.
\<close>

theorem getVipInfo_unauthenticated:
  assumes "getItem currentUserId w = None"
  shows "getVipInfo r1 r2 r3 w =
     (Returned \<lparr>currentLevel = JStr ''V0'', nextLevel = None, isActivated = False,
                isFunded = False, isLocked = False, vip_balance = Fin 0, effectiveUsers = 0,
                rulesByLevel = []\<rparr>, w)"
  using assms by (simp add: getVipInfo_absent default_vip_def)

text \<open>
  No stored user id, an empty one, and a store that throws all count as no user; the cached
  balance of 80 does not show in the snapshot.
\<close>

theorem getVipInfo_unauthenticated_witness:
  "getItem currentUserId (demo_world None (Fin 80)) = None
   \<and> getItem currentUserId (demo_world (Some []) (Fin 80)) = None
   \<and> fst (getVipInfo NetworkFailure NetworkFailure NetworkFailure (demo_world None (Fin 80)))
       = Returned \<lparr>currentLevel = JStr ''V0'', nextLevel = None, isActivated = False,
                   isFunded = False, isLocked = False, vip_balance = Fin 0, effectiveUsers = 0,
                   rulesByLevel = []\<rparr>
   \<and> sent (snd (getVipInfo NetworkFailure NetworkFailure NetworkFailure
         (demo_world None (Fin 80)))) = []
   \<and> sent (snd (getVipInfo NetworkFailure NetworkFailure NetworkFailure
         (demo_world (Some []) (Fin 80)))) = []"
proof -
  have h: "getItem currentUserId (demo_world None (Fin 80)) = None"
    "getItem currentUserId (demo_world (Some []) (Fin 80)) = None"
    by (simp_all add: demo_world_def getItem_def)
  show ?thesis
    using h getVipInfo_unauthenticated [OF h(1), of NetworkFailure NetworkFailure NetworkFailure]
      getVipInfo_unauthenticated [OF h(2), of NetworkFailure NetworkFailure NetworkFailure]
    by (simp add: demo_world_simps)
qed

section \<open>The referral list\<close>

text \<open>
  Claim C9. Every member list that \<open>getTeamSummary\<close> returns contains only edges of depth
  below 4, and with no user logged in the list is empty and no request is sent. The module
  leaves the bound to the gateway: the one request it sends carries the filter
  \<open>depth=lt.4\<close>, and the rows of the answer become the members. So the bound holds for every
  answer that honours the filters of the request the call has sent, the base URL of the
  configuration having no fragment mark (the query would be lost behind it).
\<close>

theorem getTeamSummary_depth_below_4:
  "(getItem currentUserId w = None \<longrightarrow> getTeamSummary r w = (Returned \<lparr>members = []\<rparr>, w))
   \<and> (\<forall>u. getItem currentUserId w = Some u \<longrightarrow>
         sent_by w (snd (getTeamSummary r w)) =
           [\<lparr>req_method = GET,
              req_url = url (SB w) @ ''/rest/v1/invite_edges''
                @ ''?select=descendant_id,depth''
                @ ''&ancestor_id=eq.'' @ encodeURIComponent u
                @ ''&depth=lt.4'',
              req_headers = headers (SB w), req_body = None\<rparr>])
   \<and> (\<forall>t. fst (getTeamSummary r w) = Returned t
          \<and> CHR ''#'' \<notin> set (url (SB w))
          \<and> list_all (\<lambda>rq. honours_filters rq r) (sent_by w (snd (getTeamSummary r w)))
          \<longrightarrow> (\<forall>m \<in> set (members t). depth_below_4 (depth m)))"
proof (intro conjI allI impI)
  assume "getItem currentUserId w = None"
  then show "getTeamSummary r w = (Returned \<lparr>members = []\<rparr>, w)"
    by (rule getTeamSummary_absent)
next
  fix u
  assume "getItem currentUserId w = Some u"
  then show "sent_by w (snd (getTeamSummary r w)) =
      [\<lparr>req_method = GET,
         req_url = url (SB w) @ ''/rest/v1/invite_edges''
           @ ''?select=descendant_id,depth''
           @ ''&ancestor_id=eq.'' @ encodeURIComponent u
           @ ''&depth=lt.4'',
         req_headers = headers (SB w), req_body = None\<rparr>]"
    by (simp add: sent_by_def getTeamSummary_request team_url_def)
next
  fix t
  assume a: "fst (getTeamSummary r w) = Returned t
    \<and> CHR ''#'' \<notin> set (url (SB w))
    \<and> list_all (\<lambda>rq. honours_filters rq r) (sent_by w (snd (getTeamSummary r w)))"
  show "\<forall>m \<in> set (members t). depth_below_4 (depth m)"
  proof (cases "getItem currentUserId w")
    case None
    with a have "t = \<lparr>members = []\<rparr>"
      by (simp add: getTeamSummary_absent)
    then show ?thesis by simp
  next
    case (Some u)
    let ?rq = "\<lparr>req_method = GET, req_url = team_url w u,
                req_headers = headers (SB w), req_body = None\<rparr>"
    from Some have "sent_by w (snd (getTeamSummary r w)) = [?rq]"
      by (simp add: sent_by_def getTeamSummary_request)
    with a have h: "honours_filters ?rq r"
      by simp
    from a have p: "(''depth'', ''lt.4'') \<in> set (query_params (req_url ?rq))"
      by (simp add: team_url_depth_param)
    show ?thesis
    proof (cases "members t = []")
      case True
      then show ?thesis by simp
    next
      case False
      with a getTeamSummary_depths [of r w t]
      have "map depth (members t) = map (\<lambda>row. get_prop row ''depth'') (answer_rows r)"
        by blast
      then have eq: "depth ` set (members t)
          = (\<lambda>row. get_prop row ''depth'') ` set (answer_rows r)"
        by (metis set_map)
      show ?thesis
      proof
        fix m
        assume "m \<in> set (members t)"
        then have "depth m \<in> depth ` set (members t)" by simp
        with eq obtain row where "row \<in> set (answer_rows r)" "depth m = get_prop row ''depth''"
          by auto
        with honoured_rows [OF h p] show "depth_below_4 (depth m)" by simp
      qed
    qed
  qed
qed

text \<open>
  A logged-in call answered with edges of depth 1 and 3: the request that was sent, the
  answer honouring its filter, and the members returned.
\<close>

theorem getTeamSummary_depth_below_4_witness:
  "getItem currentUserId (demo_world None (Fin 0)) = None
   \<and> getTeamSummary NetworkFailure (demo_world None (Fin 0))
       = (Returned \<lparr>members = []\<rparr>, demo_world None (Fin 0))
   \<and> getItem currentUserId (demo_world (Some ''u1'') (Fin 0)) = Some ''u1''
   \<and> CHR ''#'' \<notin> set (url (SB (demo_world (Some ''u1'') (Fin 0))))
   \<and> sent_by (demo_world (Some ''u1'') (Fin 0))
        (snd (getTeamSummary
           (Response True
              (Some (JArr [JObj [(''descendant_id'', JStr ''d1''), (''depth'', JNum (Fin 1))],
                           JObj [(''descendant_id'', JStr ''d2''), (''depth'', JNum (Fin 3))]]))
              None)
           (demo_world (Some ''u1'') (Fin 0))))
       = [\<lparr>req_method = GET,
            req_url = ''https://sb.example/rest/v1/invite_edges''
              @ ''?select=descendant_id,depth&ancestor_id=eq.u1&depth=lt.4'',
            req_headers = [(''apikey'', ''anon'')], req_body = None\<rparr>]
   \<and> list_all
        (\<lambda>rq. honours_filters rq
           (Response True
              (Some (JArr [JObj [(''descendant_id'', JStr ''d1''), (''depth'', JNum (Fin 1))],
                           JObj [(''descendant_id'', JStr ''d2''), (''depth'', JNum (Fin 3))]]))
              None))
        (sent_by (demo_world (Some ''u1'') (Fin 0))
           (snd (getTeamSummary
              (Response True
                 (Some (JArr [JObj [(''descendant_id'', JStr ''d1''), (''depth'', JNum (Fin 1))],
                              JObj [(''descendant_id'', JStr ''d2''), (''depth'', JNum (Fin 3))]]))
                 None)
              (demo_world (Some ''u1'') (Fin 0)))))
   \<and> fst (getTeamSummary
         (Response True
            (Some (JArr [JObj [(''descendant_id'', JStr ''d1''), (''depth'', JNum (Fin 1))],
                         JObj [(''descendant_id'', JStr ''d2''), (''depth'', JNum (Fin 3))]]))
            None)
         (demo_world (Some ''u1'') (Fin 0)))
       = Returned \<lparr>members = [\<lparr>member_id = Some (JStr ''d1''), depth = Some (JNum (Fin 1))\<rparr>,
                               \<lparr>member_id = Some (JStr ''d2''), depth = Some (JNum (Fin 3))\<rparr>]\<rparr>
   \<and> list_all (\<lambda>m. depth_below_4 (depth m))
        [\<lparr>member_id = Some (JStr ''d1''), depth = Some (JNum (Fin 1))\<rparr>,
         \<lparr>member_id = Some (JStr ''d2''), depth = Some (JNum (Fin 3))\<rparr>]"
proof -
  let ?W = "demo_world (Some ''u1'') (Fin 0)"
  let ?r = "Response True
              (Some (JArr [JObj [(''descendant_id'', JStr ''d1''), (''depth'', JNum (Fin 1))],
                           JObj [(''descendant_id'', JStr ''d2''), (''depth'', JNum (Fin 3))]]))
              None"
  let ?ms = "[\<lparr>member_id = Some (JStr ''d1''), depth = Some (JNum (Fin 1))\<rparr>,
              \<lparr>member_id = Some (JStr ''d2''), depth = Some (JNum (Fin 3))\<rparr>]"
  let ?rq = "\<lparr>req_method = GET,
               req_url = ''https://sb.example/rest/v1/invite_edges''
                 @ ''?select=descendant_id,depth&ancestor_id=eq.u1&depth=lt.4'',
               req_headers = [(''apikey'', ''anon'')], req_body = None\<rparr>"
  have n: "getItem currentUserId (demo_world None (Fin 0)) = None"
    by (simp add: demo_world_simps)
  have u: "getItem currentUserId ?W = Some ''u1''"
    by (simp add: demo_world_simps)
  have b: "CHR ''#'' \<notin> set (url (SB ?W))"
    by (simp add: demo_world_simps)
  have e: "encodeURIComponent ''u1'' = ''u1''"
    by (simp add: encodeURIComponent_def encode_char_def uri_unreserved_def)
  have res: "fst (getTeamSummary ?r ?W) = Returned \<lparr>members = ?ms\<rparr>"
    by (simp add: getTeamSummary_def u Let_def rows_of_def)
  note t = getTeamSummary_depth_below_4
  from t [of "demo_world None (Fin 0)" NetworkFailure] n
  have a1: "getTeamSummary NetworkFailure (demo_world None (Fin 0))
      = (Returned \<lparr>members = []\<rparr>, demo_world None (Fin 0))"
    by blast
  from t [of ?W ?r] u
  have "sent_by ?W (snd (getTeamSummary ?r ?W)) =
      [\<lparr>req_method = GET,
         req_url = url (SB ?W) @ ''/rest/v1/invite_edges''
           @ ''?select=descendant_id,depth''
           @ ''&ancestor_id=eq.'' @ encodeURIComponent ''u1''
           @ ''&depth=lt.4'',
         req_headers = headers (SB ?W), req_body = None\<rparr>]"
    by blast
  then have a2: "sent_by ?W (snd (getTeamSummary ?r ?W)) = [?rq]"
    by (simp add: e demo_world_simps)
  have q: "query_params (req_url ?rq)
      = [(''select'', ''descendant_id,depth''), (''ancestor_id'', ''eq.u1''),
         (''depth'', ''lt.4'')]"
    by (simp add: query_params_def query_of_def)
  have "honours_filters ?rq ?r"
    unfolding honours_filters_def q
    by (simp add: answer_rows_def rows_of_def row_passes_def four)
  then have h: "list_all (\<lambda>rq. honours_filters rq ?r) (sent_by ?W (snd (getTeamSummary ?r ?W)))"
    unfolding a2 by simp
  from t [of ?W ?r] res b h
  have "\<forall>m \<in> set (members \<lparr>members = ?ms\<rparr>). depth_below_4 (depth m)"
    by blast
  then have a3: "list_all (\<lambda>m. depth_below_4 (depth m)) ?ms"
    by (simp add: list_all_iff)
  show ?thesis
    using n u b a1 a2 a3 h res by blast
qed

text \<open>
  The bound is the gateway's: the module has no check of its own. An answer with an edge of
  depth 5 does not honour the filter of the request, and is passed on as it is.
\<close>

lemma getTeamSummary_passes_rows_on:
  "fst (getTeamSummary
      (Response True
         (Some (JArr [JObj [(''descendant_id'', JStr ''d9''), (''depth'', JNum (Fin 5))]]))
         None)
      (demo_world (Some ''u1'') (Fin 0)))
     = Returned \<lparr>members = [\<lparr>member_id = Some (JStr ''d9''), depth = Some (JNum (Fin 5))\<rparr>]\<rparr>"
  "\<not> honours_filters
       \<lparr>req_method = GET,
         req_url = ''https://sb.example/rest/v1/invite_edges''
           @ ''?select=descendant_id,depth&ancestor_id=eq.u1&depth=lt.4'',
         req_headers = [(''apikey'', ''anon'')], req_body = None\<rparr>
       (Response True
          (Some (JArr [JObj [(''descendant_id'', JStr ''d9''), (''depth'', JNum (Fin 5))]]))
          None)"
  by (simp_all add: getTeamSummary_def demo_world_simps Let_def rows_of_def
      honours_filters_def query_params_def query_of_def answer_rows_def row_passes_def four)

section \<open>Operations without a user\<close>

text \<open>
  Claim C3, as amended. With no user logged in, no public operation sends a request.
  \<open>refresh\<close>, \<open>getWalletAsync\<close>, \<open>getVipInfo\<close>, \<open>getTeamSummary\<close>,
  \<open>listPayoutAddresses\<close> and \<open>submitDepositTx\<close> return their default and leave the whole
  state as it was; \<open>addPayoutAddress\<close> and \<open>requestWithdraw\<close> fail with \<open>Not logged in\<close>,
  the state as it was. \<open>recordDeposit\<close>, \<open>withdraw\<close> and \<open>addIncome\<close> do not look at the
  user before they write the cache: they apply their local update as they do for a logged-in
  user, and only the requests are left out. (\<open>getWallet\<close> and \<open>getUser\<close> read only.)
\<close>

theorem unauthenticated_operations:
  assumes "getItem currentUserId w = None"
  shows "refreshWallet r w = (Returned (), w)
         \<and> getWalletAsync r w = (Returned (getWalletSync w), w)
         \<and> getVipInfo r r2 r3 w = (Returned default_vip, w)
         \<and> getTeamSummary r w = (Returned \<lparr>members = []\<rparr>, w)
         \<and> listPayoutAddresses r w = (Returned [], w)
         \<and> addPayoutAddress c n d r w = (Thrown (Error ''Not logged in''), w)
         \<and> requestWithdraw opts r w = (Thrown (Error ''Not logged in''), w)
         \<and> submitDepositTx h n c w = w
         \<and> user_id (getUser w) = None
         \<and> sent (recordDeposit x w) = sent w
         \<and> sent (snd (withdraw x w)) = sent w
         \<and> sent (addIncome x w) = sent w
         \<and> (isFinite x \<and> jgt x (Fin 0) \<longrightarrow>
               balance (cache (recordDeposit x w)) = jadd (balance (cache w)) x
               \<and> totalIncome (cache (addIncome x w)) = jadd (totalIncome (cache w)) x)
         \<and> (isFinite x \<and> jgt x (Fin 0) \<and> jge (balance (cache w)) x \<longrightarrow>
               balance (cache (snd (withdraw x w))) = jsub (balance (cache w)) x)"
proof -
  have "isFinite x \<Longrightarrow> jgt x (Fin 0) \<Longrightarrow> jge (balance (cache w)) x \<Longrightarrow>
      balance (cache (snd (withdraw x w))) = jsub (balance (cache w)) x"
    by (simp add: withdraw_accepted assms)
  then show ?thesis
    using assms
    by (simp add: refreshWallet_absent getWalletAsync_absent getVipInfo_absent
        getTeamSummary_absent listPayoutAddresses_absent not_logged_in getUser_def
        recordDeposit_absent withdraw_absent addIncome_frame recordDeposit_accepted
        addIncome_accepted)
qed

text \<open>Nobody logged in, 100 cached: a deposit of 10 and a withdrawal of 20 both go through.\<close>

theorem unauthenticated_operations_witness:
  "getItem currentUserId (demo_world None (Fin 100)) = None
   \<and> getVipInfo NetworkFailure NetworkFailure NetworkFailure (demo_world None (Fin 100))
       = (Returned default_vip, demo_world None (Fin 100))
   \<and> addPayoutAddress ''USDT'' ''TRC20'' ''T123'' NetworkFailure (demo_world None (Fin 100))
       = (Thrown (Error ''Not logged in''), demo_world None (Fin 100))
   \<and> sent (recordDeposit (Fin 10) (demo_world None (Fin 100))) = []
   \<and> sent (snd (withdraw (Fin 20) (demo_world None (Fin 100)))) = []
   \<and> isFinite (Fin 10) \<and> jgt (Fin 10) (Fin 0)
   \<and> balance (cache (recordDeposit (Fin 10) (demo_world None (Fin 100)))) = Fin 110
   \<and> isFinite (Fin 20) \<and> jgt (Fin 20) (Fin 0)
   \<and> jge (balance (cache (demo_world None (Fin 100)))) (Fin 20)
   \<and> balance (cache (snd (withdraw (Fin 20) (demo_world None (Fin 100))))) = Fin 80"
proof -
  let ?W = "demo_world None (Fin 100)"
  have n: "getItem currentUserId ?W = None"
    by (simp add: demo_world_simps)
  have h: "isFinite (Fin 10)" "jgt (Fin 10) (Fin 0)" "isFinite (Fin 20)" "jgt (Fin 20) (Fin 0)"
    "jge (balance (cache ?W)) (Fin 20)"
    by (simp_all add: jgt_def jge_def demo_world_simps)
  have b: "jadd (balance (cache ?W)) (Fin 10) = Fin 110"
    "jsub (balance (cache ?W)) (Fin 20) = Fin 80" "sent ?W = []"
    by (simp_all only: demo_world_simps wallet_cache.simps arithmetic_examples)
  note t = unauthenticated_operations [OF n]
  show ?thesis
    using n h
      t [of NetworkFailure NetworkFailure NetworkFailure "''USDT''" "''TRC20''" "''T123''"
           _ _ "Fin 10"]
      t [of NetworkFailure NetworkFailure NetworkFailure "''USDT''" "''TRC20''" "''T123''"
           _ _ "Fin 20"]
    unfolding b by blast
qed

text \<open>
  Claim C3 as it stands fails for \<open>recordDeposit\<close> and \<open>withdraw\<close>: with nobody logged in
  and 100 cached, a deposit of 10 leaves 110 in the cache and a withdrawal of 20 leaves 80.
\<close>

theorem unauthenticated_cache_counterexample:
  "getItem currentUserId (demo_world None (Fin 100)) = None
   \<and> balance (cache (demo_world None (Fin 100))) = Fin 100
   \<and> balance (cache (recordDeposit (Fin 10) (demo_world None (Fin 100)))) = Fin 110
   \<and> cache (recordDeposit (Fin 10) (demo_world None (Fin 100)))
       \<noteq> cache (demo_world None (Fin 100))
   \<and> balance (cache (snd (withdraw (Fin 20) (demo_world None (Fin 100))))) = Fin 80
   \<and> cache (snd (withdraw (Fin 20) (demo_world None (Fin 100))))
       \<noteq> cache (demo_world None (Fin 100))"
proof -
  let ?W = "demo_world None (Fin 100)"
  have n: "getItem currentUserId ?W = None" and c: "balance (cache ?W) = Fin 100"
    by (simp_all add: demo_world_simps)
  have d: "balance (cache (recordDeposit (Fin 10) ?W)) = Fin 110"
    by (simp add: recordDeposit_accepted jgt_def c round64_numeral)
  have e: "balance (cache (snd (withdraw (Fin 20) ?W))) = Fin 80"
    by (simp add: withdraw_accepted jgt_def jge_def c n jsub_def round64_numeral)
  have "balance (cache (recordDeposit (Fin 10) ?W)) \<noteq> balance (cache ?W)"
    unfolding c d by simp
  then have d': "cache (recordDeposit (Fin 10) ?W) \<noteq> cache ?W"
    by metis
  have "balance (cache (snd (withdraw (Fin 20) ?W))) \<noteq> balance (cache ?W)"
    unfolding c e by simp
  then have e': "cache (snd (withdraw (Fin 20) ?W)) \<noteq> cache ?W"
    by metis
  show ?thesis
    using n c d e d' e' by blast
qed

section \<open>Reads that fail\<close>

text \<open>
  Claim C4, as amended. A failing \<open>refresh\<close> (the fetch rejecting, a response that is not a
  success, a body that cannot be read) returns normally and leaves the cache as it was. For
  \<open>getTeamSummary\<close>, \<open>listPayoutAddresses\<close> and the membership-state lookup inside
  \<open>getVipInfo\<close> only a response that is not a success degrades to an empty result: the first
  two return an empty list, and \<open>getVipInfo\<close> goes on as if the lookup had found no row, so
  that a snapshot it returns has level V0 and all flags false. When the fetch rejects or the
  body cannot be read, these three reject: the module leaves it to the caller to catch.
\<close>

theorem failed_reads_degrade_or_reject:
  "(failed_read r \<longrightarrow>
      fst (refreshWallet r w) = Returned () \<and> cache (snd (refreshWallet r w)) = cache w)
   \<and> (\<forall>u. getItem currentUserId w = Some u \<longrightarrow>
         fst (getTeamSummary (Response False js txt) w) = Returned \<lparr>members = []\<rparr>
         \<and> fst (listPayoutAddresses (Response False js txt) w) = Returned []
         \<and> getVipInfo (Response False js txt) r2 r3 w
             = getVipInfo (Response True (Some (JArr [])) txt) r2 r3 w
         \<and> (\<forall>v. fst (getVipInfo (Response False js txt) r2 r3 w) = Returned v \<longrightarrow>
               currentLevel v = JStr ''V0'' \<and> \<not> isActivated v \<and> \<not> isFunded v \<and> \<not> isLocked v)
         \<and> fst (getTeamSummary NetworkFailure w) = Thrown FetchRejected
         \<and> fst (listPayoutAddresses NetworkFailure w) = Thrown FetchRejected
         \<and> fst (getVipInfo NetworkFailure r2 r3 w) = Thrown FetchRejected
         \<and> fst (getTeamSummary (Response True None txt) w) = Thrown BodyRejected
         \<and> fst (listPayoutAddresses (Response True None txt) w) = Thrown BodyRejected
         \<and> fst (getVipInfo (Response True None txt) r2 r3 w) = Thrown BodyRejected)"
  by (intro conjI allI impI)
     (auto simp: refreshWallet_returns refreshWallet_failed getTeamSummary_failed
        listPayoutAddresses_failed getVipInfo_failed
      intro: getVipInfo_not_ok dest: getVipInfo_failed_state)

text \<open>
  A logged-in user, 80 cached, every read answered with a server error: the refresh keeps
  the cache, the lists are empty, and \<open>getVipInfo\<close> returns the V0 snapshot with the stale
  balance.
\<close>

theorem failed_reads_degrade_or_reject_witness:
  "failed_read (Response False None None)
   \<and> fst (refreshWallet (Response False None None) (demo_world (Some ''u1'') (Fin 80)))
       = Returned ()
   \<and> cache (snd (refreshWallet (Response False None None) (demo_world (Some ''u1'') (Fin 80))))
       = cache (demo_world (Some ''u1'') (Fin 80))
   \<and> getItem currentUserId (demo_world (Some ''u1'') (Fin 80)) = Some ''u1''
   \<and> fst (getTeamSummary (Response False None None) (demo_world (Some ''u1'') (Fin 80)))
       = Returned \<lparr>members = []\<rparr>
   \<and> fst (listPayoutAddresses (Response False None None) (demo_world (Some ''u1'') (Fin 80)))
       = Returned []
   \<and> (\<exists>v. fst (getVipInfo (Response False None None) (Response False None None)
                (Response False None None) (demo_world (Some ''u1'') (Fin 80))) = Returned v
          \<and> currentLevel v = JStr ''V0'' \<and> \<not> isActivated v \<and> vip_balance v = Fin 80
          \<and> effectiveUsers v = 0)
   \<and> fst (getTeamSummary NetworkFailure (demo_world (Some ''u1'') (Fin 80)))
       = Thrown FetchRejected"
proof -
  let ?W = "demo_world (Some ''u1'') (Fin 80)"
  let ?e = "Response False None None"
  have f: "failed_read ?e"
    by (simp add: failed_read_def)
  have u: "getItem currentUserId ?W = Some ''u1''"
    by (simp add: demo_world_simps)
  note t = failed_reads_degrade_or_reject [of ?e ?W None None ?e ?e]
  obtain v where v: "fst (getVipInfo ?e ?e ?e ?W) = Returned v"
    and b: "vip_balance v = Fin 80" "effectiveUsers v = 0"
    by (simp add: getVipInfo_def getWalletAsync_def refreshWallet_def refresh_try_def
        getTeamSummary_def getWalletSync_def Let_def getItem_simps fetch_simps u
        demo_world_simps)
  from t u v have "currentLevel v = JStr ''V0'' \<and> \<not> isActivated v" by blast
  with t f u v b show ?thesis by blast
qed

text \<open>
  Claim C4 as it stands fails on a network failure: with a user logged in, the promises of
  \<open>getTeamSummary\<close>, \<open>listPayoutAddresses\<close> and \<open>getVipInfo\<close> reject.
\<close>

theorem network_failure_counterexample:
  "failed_read NetworkFailure
   \<and> getItem currentUserId (demo_world (Some ''u1'') (Fin 80)) = Some ''u1''
   \<and> fst (getTeamSummary NetworkFailure (demo_world (Some ''u1'') (Fin 80)))
       = Thrown FetchRejected
   \<and> fst (listPayoutAddresses NetworkFailure (demo_world (Some ''u1'') (Fin 80)))
       = Thrown FetchRejected
   \<and> fst (getVipInfo NetworkFailure NetworkFailure NetworkFailure
         (demo_world (Some ''u1'') (Fin 80)))
       = Thrown FetchRejected"
  by (simp add: failed_read_def demo_world_simps getTeamSummary_def listPayoutAddresses_def
      getVipInfo_def Let_def)

end
